theory Spec2Isabelle
  imports Main
begin

section \<open>Meet App: logging and retrieving interactions (app3.py)\<close>

text \<open>
  The program keeps rows \<open>(name, details)\<close> in an external table, refuses a new row whose
  normalised name is already there, and looks a name up exactly or, failing that, by the
  best fuzzy score. The definitions below follow \<^verbatim>\<open>app3.py\<close> function by function and keep
  its names. What the program gets from outside is a parameter of the model:
  \<^item> the fuzzy scorer of \<^verbatim>\<open>fuzzywuzzy.process.extractOne\<close> (its default processor and
    scorer, a function of the query and one choice, with values from 0 to 100);
  \<^item> the chat completion of the language model, \<open>create\<close>;
  \<^item> the JSON parser \<^verbatim>\<open>json.loads\<close>, \<open>loads\<close>;
  \<^item> whether a call to the table raises for a reason outside the data, \<open>fault\<close>.
\<close>

subsection \<open>Strings\<close>

text \<open>
  A Python \<^verbatim>\<open>str\<close> is a sequence of Unicode code points, here a list of integers.
  \<open>ustr\<close> turns a literal of characters below 256 into such a list.
\<close>

type_synonym ustring = "int list"

definition ustr :: "string \<Rightarrow> ustring" where
  "ustr s = map of_char s"

fun in_ranges :: "(int \<times> int) list \<Rightarrow> int \<Rightarrow> bool" where
  "in_ranges [] c = False"
| "in_ranges ((lo, hi) # rs) c = ((lo \<le> c \<and> c \<le> hi) \<or> in_ranges rs c)"

text \<open>
  \<^verbatim>\<open>str.strip()\<close> without an argument removes the code points that CPython's
  \<^verbatim>\<open>_PyUnicode_IsWhitespace\<close> accepts: the ASCII ones (9 to 13, 28 to 32) and those of
  bidirectional type WS, B or S elsewhere.
\<close>

definition space_ranges :: "(int \<times> int) list" where
  "space_ranges =
     [(0x9, 0xD), (0x1C, 0x20), (0x85, 0x85), (0xA0, 0xA0), (0x1680, 0x1680),
      (0x2000, 0x200A), (0x2028, 0x2029), (0x202F, 0x202F), (0x205F, 0x205F),
      (0x3000, 0x3000)]"

definition isspace :: "int \<Rightarrow> bool" where
  "isspace c = in_ranges space_ranges c"

text \<open>\<^verbatim>\<open>s.strip()\<close>: the left end is cut first, then the right end of what is left.\<close>

definition py_strip :: "ustring \<Rightarrow> ustring" where
  "py_strip s = rev (dropWhile isspace (rev (dropWhile isspace s)))"

text \<open>
  \<^verbatim>\<open>str.lower()\<close> uses the full lower-case mapping of the Unicode character database. The
  tables below are those of Unicode 14.0.0, as CPython 3.11 has them. A block
  \<open>(lo, hi, step, target)\<close> maps every \<open>step\<close>-th code point from \<open>lo\<close> to \<open>hi\<close> to the code
  point at the same offset from \<open>target\<close>; a code point in no block is its own lower case.
  The one code point with a longer mapping is U+0130, which becomes U+0069 U+0307.
\<close>

type_synonym block = "int \<times> int \<times> int \<times> int"

fun in_block :: "block \<Rightarrow> int \<Rightarrow> bool" where
  "in_block (lo, hi, step, target) c = (lo \<le> c \<and> c \<le> hi \<and> (c - lo) mod step = 0)"

fun image_of :: "block \<Rightarrow> int \<Rightarrow> int" where
  "image_of (lo, hi, step, target) c = target + (c - lo)"

fun lookup_lower :: "block list \<Rightarrow> int \<Rightarrow> int option" where
  "lookup_lower [] c = None"
| "lookup_lower (b # bs) c = (if in_block b c then Some (image_of b c) else lookup_lower bs c)"

definition lower_blocks :: "block list" where
  "lower_blocks =
    [(0x41, 0x5A, 1, 0x61), (0xC0, 0xD6, 1, 0xE0), (0xD8, 0xDE, 1, 0xF8),
     (0x100, 0x12E, 2, 0x101), (0x132, 0x136, 2, 0x133), (0x139, 0x147, 2, 0x13A),
     (0x14A, 0x176, 2, 0x14B), (0x178, 0x178, 1, 0xFF), (0x179, 0x17D, 2, 0x17A),
     (0x181, 0x181, 1, 0x253), (0x182, 0x184, 2, 0x183), (0x186, 0x186, 1, 0x254),
     (0x187, 0x187, 1, 0x188), (0x189, 0x18A, 1, 0x256), (0x18B, 0x18B, 1, 0x18C),
     (0x18E, 0x18E, 1, 0x1DD), (0x18F, 0x18F, 1, 0x259), (0x190, 0x190, 1, 0x25B),
     (0x191, 0x191, 1, 0x192), (0x193, 0x193, 1, 0x260), (0x194, 0x194, 1, 0x263),
     (0x196, 0x196, 1, 0x269), (0x197, 0x197, 1, 0x268), (0x198, 0x198, 1, 0x199),
     (0x19C, 0x19C, 1, 0x26F), (0x19D, 0x19D, 1, 0x272), (0x19F, 0x19F, 1, 0x275),
     (0x1A0, 0x1A4, 2, 0x1A1), (0x1A6, 0x1A6, 1, 0x280), (0x1A7, 0x1A7, 1, 0x1A8),
     (0x1A9, 0x1A9, 1, 0x283), (0x1AC, 0x1AC, 1, 0x1AD), (0x1AE, 0x1AE, 1, 0x288),
     (0x1AF, 0x1AF, 1, 0x1B0), (0x1B1, 0x1B2, 1, 0x28A), (0x1B3, 0x1B5, 2, 0x1B4),
     (0x1B7, 0x1B7, 1, 0x292), (0x1B8, 0x1B8, 1, 0x1B9), (0x1BC, 0x1BC, 1, 0x1BD),
     (0x1C4, 0x1C4, 1, 0x1C6), (0x1C5, 0x1C5, 1, 0x1C6), (0x1C7, 0x1C7, 1, 0x1C9),
     (0x1C8, 0x1C8, 1, 0x1C9), (0x1CA, 0x1CA, 1, 0x1CC), (0x1CB, 0x1DB, 2, 0x1CC),
     (0x1DE, 0x1EE, 2, 0x1DF), (0x1F1, 0x1F1, 1, 0x1F3), (0x1F2, 0x1F4, 2, 0x1F3),
     (0x1F6, 0x1F6, 1, 0x195), (0x1F7, 0x1F7, 1, 0x1BF), (0x1F8, 0x21E, 2, 0x1F9),
     (0x220, 0x220, 1, 0x19E), (0x222, 0x232, 2, 0x223), (0x23A, 0x23A, 1, 0x2C65),
     (0x23B, 0x23B, 1, 0x23C), (0x23D, 0x23D, 1, 0x19A), (0x23E, 0x23E, 1, 0x2C66),
     (0x241, 0x241, 1, 0x242), (0x243, 0x243, 1, 0x180), (0x244, 0x244, 1, 0x289),
     (0x245, 0x245, 1, 0x28C), (0x246, 0x24E, 2, 0x247), (0x370, 0x372, 2, 0x371),
     (0x376, 0x376, 1, 0x377), (0x37F, 0x37F, 1, 0x3F3), (0x386, 0x386, 1, 0x3AC),
     (0x388, 0x38A, 1, 0x3AD), (0x38C, 0x38C, 1, 0x3CC), (0x38E, 0x38F, 1, 0x3CD),
     (0x391, 0x3A1, 1, 0x3B1), (0x3A3, 0x3AB, 1, 0x3C3), (0x3CF, 0x3CF, 1, 0x3D7),
     (0x3D8, 0x3EE, 2, 0x3D9), (0x3F4, 0x3F4, 1, 0x3B8), (0x3F7, 0x3F7, 1, 0x3F8),
     (0x3F9, 0x3F9, 1, 0x3F2), (0x3FA, 0x3FA, 1, 0x3FB), (0x3FD, 0x3FF, 1, 0x37B),
     (0x400, 0x40F, 1, 0x450), (0x410, 0x42F, 1, 0x430), (0x460, 0x480, 2, 0x461),
     (0x48A, 0x4BE, 2, 0x48B), (0x4C0, 0x4C0, 1, 0x4CF), (0x4C1, 0x4CD, 2, 0x4C2),
     (0x4D0, 0x52E, 2, 0x4D1), (0x531, 0x556, 1, 0x561), (0x10A0, 0x10C5, 1, 0x2D00),
     (0x10C7, 0x10C7, 1, 0x2D27), (0x10CD, 0x10CD, 1, 0x2D2D), (0x13A0, 0x13EF, 1, 0xAB70),
     (0x13F0, 0x13F5, 1, 0x13F8), (0x1C90, 0x1CBA, 1, 0x10D0), (0x1CBD, 0x1CBF, 1, 0x10FD),
     (0x1E00, 0x1E94, 2, 0x1E01), (0x1E9E, 0x1E9E, 1, 0xDF), (0x1EA0, 0x1EFE, 2, 0x1EA1),
     (0x1F08, 0x1F0F, 1, 0x1F00), (0x1F18, 0x1F1D, 1, 0x1F10), (0x1F28, 0x1F2F, 1, 0x1F20),
     (0x1F38, 0x1F3F, 1, 0x1F30), (0x1F48, 0x1F4D, 1, 0x1F40), (0x1F59, 0x1F5F, 2, 0x1F51),
     (0x1F68, 0x1F6F, 1, 0x1F60), (0x1F88, 0x1F8F, 1, 0x1F80), (0x1F98, 0x1F9F, 1, 0x1F90),
     (0x1FA8, 0x1FAF, 1, 0x1FA0), (0x1FB8, 0x1FB9, 1, 0x1FB0), (0x1FBA, 0x1FBB, 1, 0x1F70),
     (0x1FBC, 0x1FBC, 1, 0x1FB3), (0x1FC8, 0x1FCB, 1, 0x1F72), (0x1FCC, 0x1FCC, 1, 0x1FC3),
     (0x1FD8, 0x1FD9, 1, 0x1FD0), (0x1FDA, 0x1FDB, 1, 0x1F76), (0x1FE8, 0x1FE9, 1, 0x1FE0),
     (0x1FEA, 0x1FEB, 1, 0x1F7A), (0x1FEC, 0x1FEC, 1, 0x1FE5), (0x1FF8, 0x1FF9, 1, 0x1F78),
     (0x1FFA, 0x1FFB, 1, 0x1F7C), (0x1FFC, 0x1FFC, 1, 0x1FF3), (0x2126, 0x2126, 1, 0x3C9),
     (0x212A, 0x212A, 1, 0x6B), (0x212B, 0x212B, 1, 0xE5), (0x2132, 0x2132, 1, 0x214E),
     (0x2160, 0x216F, 1, 0x2170), (0x2183, 0x2183, 1, 0x2184), (0x24B6, 0x24CF, 1, 0x24D0),
     (0x2C00, 0x2C2F, 1, 0x2C30), (0x2C60, 0x2C60, 1, 0x2C61), (0x2C62, 0x2C62, 1, 0x26B),
     (0x2C63, 0x2C63, 1, 0x1D7D), (0x2C64, 0x2C64, 1, 0x27D), (0x2C67, 0x2C6B, 2, 0x2C68),
     (0x2C6D, 0x2C6D, 1, 0x251), (0x2C6E, 0x2C6E, 1, 0x271), (0x2C6F, 0x2C6F, 1, 0x250),
     (0x2C70, 0x2C70, 1, 0x252), (0x2C72, 0x2C72, 1, 0x2C73), (0x2C75, 0x2C75, 1, 0x2C76),
     (0x2C7E, 0x2C7F, 1, 0x23F), (0x2C80, 0x2CE2, 2, 0x2C81), (0x2CEB, 0x2CED, 2, 0x2CEC),
     (0x2CF2, 0x2CF2, 1, 0x2CF3), (0xA640, 0xA66C, 2, 0xA641), (0xA680, 0xA69A, 2, 0xA681),
     (0xA722, 0xA72E, 2, 0xA723), (0xA732, 0xA76E, 2, 0xA733), (0xA779, 0xA77B, 2, 0xA77A),
     (0xA77D, 0xA77D, 1, 0x1D79), (0xA77E, 0xA786, 2, 0xA77F), (0xA78B, 0xA78B, 1, 0xA78C),
     (0xA78D, 0xA78D, 1, 0x265), (0xA790, 0xA792, 2, 0xA791), (0xA796, 0xA7A8, 2, 0xA797),
     (0xA7AA, 0xA7AA, 1, 0x266), (0xA7AB, 0xA7AB, 1, 0x25C), (0xA7AC, 0xA7AC, 1, 0x261),
     (0xA7AD, 0xA7AD, 1, 0x26C), (0xA7AE, 0xA7AE, 1, 0x26A), (0xA7B0, 0xA7B0, 1, 0x29E),
     (0xA7B1, 0xA7B1, 1, 0x287), (0xA7B2, 0xA7B2, 1, 0x29D), (0xA7B3, 0xA7B3, 1, 0xAB53),
     (0xA7B4, 0xA7C2, 2, 0xA7B5), (0xA7C4, 0xA7C4, 1, 0xA794), (0xA7C5, 0xA7C5, 1, 0x282),
     (0xA7C6, 0xA7C6, 1, 0x1D8E), (0xA7C7, 0xA7C9, 2, 0xA7C8), (0xA7D0, 0xA7D0, 1, 0xA7D1),
     (0xA7D6, 0xA7D8, 2, 0xA7D7), (0xA7F5, 0xA7F5, 1, 0xA7F6), (0xFF21, 0xFF3A, 1, 0xFF41),
     (0x10400, 0x10427, 1, 0x10428), (0x104B0, 0x104D3, 1, 0x104D8), (0x10570, 0x1057A, 1, 0x10597),
     (0x1057C, 0x1058A, 1, 0x105A3), (0x1058C, 0x10592, 1, 0x105B3), (0x10594, 0x10595, 1, 0x105BB),
     (0x10C80, 0x10CB2, 1, 0x10CC0), (0x118A0, 0x118BF, 1, 0x118C0), (0x16E40, 0x16E5F, 1, 0x16E60),
     (0x1E900, 0x1E921, 1, 0x1E922)]"

text \<open>\<^verbatim>\<open>_PyUnicode_ToLowerFull\<close>: the lower-case mapping of one code point.\<close>

definition to_lower_full :: "int \<Rightarrow> ustring" where
  "to_lower_full c =
     (if c = 0x130 then [0x69, 0x307]
      else case lookup_lower lower_blocks c of Some d \<Rightarrow> [d] | None \<Rightarrow> [c])"

text \<open>
  The code points with the property Cased and with the property Case_Ignorable, which the
  rule for the capital sigma reads.
\<close>

definition cased_ranges :: "(int \<times> int) list" where
  "cased_ranges =
    [(0x41, 0x5A), (0x61, 0x7A), (0xAA, 0xAA), (0xB5, 0xB5), (0xBA, 0xBA),
     (0xC0, 0xD6), (0xD8, 0xF6), (0xF8, 0x1BA), (0x1BC, 0x1BF), (0x1C4, 0x293),
     (0x295, 0x2B8), (0x2C0, 0x2C1), (0x2E0, 0x2E4), (0x345, 0x345), (0x370, 0x373),
     (0x376, 0x377), (0x37A, 0x37D), (0x37F, 0x37F), (0x386, 0x386), (0x388, 0x38A),
     (0x38C, 0x38C), (0x38E, 0x3A1), (0x3A3, 0x3F5), (0x3F7, 0x481), (0x48A, 0x52F),
     (0x531, 0x556), (0x560, 0x588), (0x10A0, 0x10C5), (0x10C7, 0x10C7), (0x10CD, 0x10CD),
     (0x10D0, 0x10FA), (0x10FD, 0x10FF), (0x13A0, 0x13F5), (0x13F8, 0x13FD), (0x1C80, 0x1C88),
     (0x1C90, 0x1CBA), (0x1CBD, 0x1CBF), (0x1D00, 0x1DBF), (0x1E00, 0x1F15), (0x1F18, 0x1F1D),
     (0x1F20, 0x1F45), (0x1F48, 0x1F4D), (0x1F50, 0x1F57), (0x1F59, 0x1F59), (0x1F5B, 0x1F5B),
     (0x1F5D, 0x1F5D), (0x1F5F, 0x1F7D), (0x1F80, 0x1FB4), (0x1FB6, 0x1FBC), (0x1FBE, 0x1FBE),
     (0x1FC2, 0x1FC4), (0x1FC6, 0x1FCC), (0x1FD0, 0x1FD3), (0x1FD6, 0x1FDB), (0x1FE0, 0x1FEC),
     (0x1FF2, 0x1FF4), (0x1FF6, 0x1FFC), (0x2071, 0x2071), (0x207F, 0x207F), (0x2090, 0x209C),
     (0x2102, 0x2102), (0x2107, 0x2107), (0x210A, 0x2113), (0x2115, 0x2115), (0x2119, 0x211D),
     (0x2124, 0x2124), (0x2126, 0x2126), (0x2128, 0x2128), (0x212A, 0x212D), (0x212F, 0x2134),
     (0x2139, 0x2139), (0x213C, 0x213F), (0x2145, 0x2149), (0x214E, 0x214E), (0x2160, 0x217F),
     (0x2183, 0x2184), (0x24B6, 0x24E9), (0x2C00, 0x2CE4), (0x2CEB, 0x2CEE), (0x2CF2, 0x2CF3),
     (0x2D00, 0x2D25), (0x2D27, 0x2D27), (0x2D2D, 0x2D2D), (0xA640, 0xA66D), (0xA680, 0xA69D),
     (0xA722, 0xA787), (0xA78B, 0xA78E), (0xA790, 0xA7CA), (0xA7D0, 0xA7D1), (0xA7D3, 0xA7D3),
     (0xA7D5, 0xA7D9), (0xA7F5, 0xA7F6), (0xA7F8, 0xA7FA), (0xAB30, 0xAB5A), (0xAB5C, 0xAB68),
     (0xAB70, 0xABBF), (0xFB00, 0xFB06), (0xFB13, 0xFB17), (0xFF21, 0xFF3A), (0xFF41, 0xFF5A),
     (0x10400, 0x1044F), (0x104B0, 0x104D3), (0x104D8, 0x104FB), (0x10570, 0x1057A), (0x1057C, 0x1058A),
     (0x1058C, 0x10592), (0x10594, 0x10595), (0x10597, 0x105A1), (0x105A3, 0x105B1), (0x105B3, 0x105B9),
     (0x105BB, 0x105BC), (0x10780, 0x10780), (0x10783, 0x10785), (0x10787, 0x107B0), (0x107B2, 0x107BA),
     (0x10C80, 0x10CB2), (0x10CC0, 0x10CF2), (0x118A0, 0x118DF), (0x16E40, 0x16E7F), (0x1D400, 0x1D454),
     (0x1D456, 0x1D49C), (0x1D49E, 0x1D49F), (0x1D4A2, 0x1D4A2), (0x1D4A5, 0x1D4A6), (0x1D4A9, 0x1D4AC),
     (0x1D4AE, 0x1D4B9), (0x1D4BB, 0x1D4BB), (0x1D4BD, 0x1D4C3), (0x1D4C5, 0x1D505), (0x1D507, 0x1D50A),
     (0x1D50D, 0x1D514), (0x1D516, 0x1D51C), (0x1D51E, 0x1D539), (0x1D53B, 0x1D53E), (0x1D540, 0x1D544),
     (0x1D546, 0x1D546), (0x1D54A, 0x1D550), (0x1D552, 0x1D6A5), (0x1D6A8, 0x1D6C0), (0x1D6C2, 0x1D6DA),
     (0x1D6DC, 0x1D6FA), (0x1D6FC, 0x1D714), (0x1D716, 0x1D734), (0x1D736, 0x1D74E), (0x1D750, 0x1D76E),
     (0x1D770, 0x1D788), (0x1D78A, 0x1D7A8), (0x1D7AA, 0x1D7C2), (0x1D7C4, 0x1D7CB), (0x1DF00, 0x1DF09),
     (0x1DF0B, 0x1DF1E), (0x1E900, 0x1E943), (0x1F130, 0x1F149), (0x1F150, 0x1F169), (0x1F170, 0x1F189)]"

definition case_ignorable_ranges :: "(int \<times> int) list" where
  "case_ignorable_ranges =
    [(0x27, 0x27), (0x2E, 0x2E), (0x3A, 0x3A), (0x5E, 0x5E), (0x60, 0x60),
     (0xA8, 0xA8), (0xAD, 0xAD), (0xAF, 0xAF), (0xB4, 0xB4), (0xB7, 0xB8),
     (0x2B0, 0x36F), (0x374, 0x375), (0x37A, 0x37A), (0x384, 0x385), (0x387, 0x387),
     (0x483, 0x489), (0x559, 0x559), (0x55F, 0x55F), (0x591, 0x5BD), (0x5BF, 0x5BF),
     (0x5C1, 0x5C2), (0x5C4, 0x5C5), (0x5C7, 0x5C7), (0x5F4, 0x5F4), (0x600, 0x605),
     (0x610, 0x61A), (0x61C, 0x61C), (0x640, 0x640), (0x64B, 0x65F), (0x670, 0x670),
     (0x6D6, 0x6DD), (0x6DF, 0x6E8), (0x6EA, 0x6ED), (0x70F, 0x70F), (0x711, 0x711),
     (0x730, 0x74A), (0x7A6, 0x7B0), (0x7EB, 0x7F5), (0x7FA, 0x7FA), (0x7FD, 0x7FD),
     (0x816, 0x82D), (0x859, 0x85B), (0x888, 0x888), (0x890, 0x891), (0x898, 0x89F),
     (0x8C9, 0x902), (0x93A, 0x93A), (0x93C, 0x93C), (0x941, 0x948), (0x94D, 0x94D),
     (0x951, 0x957), (0x962, 0x963), (0x971, 0x971), (0x981, 0x981), (0x9BC, 0x9BC),
     (0x9C1, 0x9C4), (0x9CD, 0x9CD), (0x9E2, 0x9E3), (0x9FE, 0x9FE), (0xA01, 0xA02),
     (0xA3C, 0xA3C), (0xA41, 0xA42), (0xA47, 0xA48), (0xA4B, 0xA4D), (0xA51, 0xA51),
     (0xA70, 0xA71), (0xA75, 0xA75), (0xA81, 0xA82), (0xABC, 0xABC), (0xAC1, 0xAC5),
     (0xAC7, 0xAC8), (0xACD, 0xACD), (0xAE2, 0xAE3), (0xAFA, 0xAFF), (0xB01, 0xB01),
     (0xB3C, 0xB3C), (0xB3F, 0xB3F), (0xB41, 0xB44), (0xB4D, 0xB4D), (0xB55, 0xB56),
     (0xB62, 0xB63), (0xB82, 0xB82), (0xBC0, 0xBC0), (0xBCD, 0xBCD), (0xC00, 0xC00),
     (0xC04, 0xC04), (0xC3C, 0xC3C), (0xC3E, 0xC40), (0xC46, 0xC48), (0xC4A, 0xC4D),
     (0xC55, 0xC56), (0xC62, 0xC63), (0xC81, 0xC81), (0xCBC, 0xCBC), (0xCBF, 0xCBF),
     (0xCC6, 0xCC6), (0xCCC, 0xCCD), (0xCE2, 0xCE3), (0xD00, 0xD01), (0xD3B, 0xD3C),
     (0xD41, 0xD44), (0xD4D, 0xD4D), (0xD62, 0xD63), (0xD81, 0xD81), (0xDCA, 0xDCA),
     (0xDD2, 0xDD4), (0xDD6, 0xDD6), (0xE31, 0xE31), (0xE34, 0xE3A), (0xE46, 0xE4E),
     (0xEB1, 0xEB1), (0xEB4, 0xEBC), (0xEC6, 0xEC6), (0xEC8, 0xECD), (0xF18, 0xF19),
     (0xF35, 0xF35), (0xF37, 0xF37), (0xF39, 0xF39), (0xF71, 0xF7E), (0xF80, 0xF84),
     (0xF86, 0xF87), (0xF8D, 0xF97), (0xF99, 0xFBC), (0xFC6, 0xFC6), (0x102D, 0x1030),
     (0x1032, 0x1037), (0x1039, 0x103A), (0x103D, 0x103E), (0x1058, 0x1059), (0x105E, 0x1060),
     (0x1071, 0x1074), (0x1082, 0x1082), (0x1085, 0x1086), (0x108D, 0x108D), (0x109D, 0x109D),
     (0x10FC, 0x10FC), (0x135D, 0x135F), (0x1712, 0x1714), (0x1732, 0x1733), (0x1752, 0x1753),
     (0x1772, 0x1773), (0x17B4, 0x17B5), (0x17B7, 0x17BD), (0x17C6, 0x17C6), (0x17C9, 0x17D3),
     (0x17D7, 0x17D7), (0x17DD, 0x17DD), (0x180B, 0x180F), (0x1843, 0x1843), (0x1885, 0x1886),
     (0x18A9, 0x18A9), (0x1920, 0x1922), (0x1927, 0x1928), (0x1932, 0x1932), (0x1939, 0x193B),
     (0x1A17, 0x1A18), (0x1A1B, 0x1A1B), (0x1A56, 0x1A56), (0x1A58, 0x1A5E), (0x1A60, 0x1A60),
     (0x1A62, 0x1A62), (0x1A65, 0x1A6C), (0x1A73, 0x1A7C), (0x1A7F, 0x1A7F), (0x1AA7, 0x1AA7),
     (0x1AB0, 0x1ACE), (0x1B00, 0x1B03), (0x1B34, 0x1B34), (0x1B36, 0x1B3A), (0x1B3C, 0x1B3C),
     (0x1B42, 0x1B42), (0x1B6B, 0x1B73), (0x1B80, 0x1B81), (0x1BA2, 0x1BA5), (0x1BA8, 0x1BA9),
     (0x1BAB, 0x1BAD), (0x1BE6, 0x1BE6), (0x1BE8, 0x1BE9), (0x1BED, 0x1BED), (0x1BEF, 0x1BF1),
     (0x1C2C, 0x1C33), (0x1C36, 0x1C37), (0x1C78, 0x1C7D), (0x1CD0, 0x1CD2), (0x1CD4, 0x1CE0),
     (0x1CE2, 0x1CE8), (0x1CED, 0x1CED), (0x1CF4, 0x1CF4), (0x1CF8, 0x1CF9), (0x1D2C, 0x1D6A),
     (0x1D78, 0x1D78), (0x1D9B, 0x1DFF), (0x1FBD, 0x1FBD), (0x1FBF, 0x1FC1), (0x1FCD, 0x1FCF),
     (0x1FDD, 0x1FDF), (0x1FED, 0x1FEF), (0x1FFD, 0x1FFE), (0x200B, 0x200F), (0x2018, 0x2019),
     (0x2024, 0x2024), (0x2027, 0x2027), (0x202A, 0x202E), (0x2060, 0x2064), (0x2066, 0x206F),
     (0x2071, 0x2071), (0x207F, 0x207F), (0x2090, 0x209C), (0x20D0, 0x20F0), (0x2C7C, 0x2C7D),
     (0x2CEF, 0x2CF1), (0x2D6F, 0x2D6F), (0x2D7F, 0x2D7F), (0x2DE0, 0x2DFF), (0x2E2F, 0x2E2F),
     (0x3005, 0x3005), (0x302A, 0x302D), (0x3031, 0x3035), (0x303B, 0x303B), (0x3099, 0x309E),
     (0x30FC, 0x30FE), (0xA015, 0xA015), (0xA4F8, 0xA4FD), (0xA60C, 0xA60C), (0xA66F, 0xA672),
     (0xA674, 0xA67D), (0xA67F, 0xA67F), (0xA69C, 0xA69F), (0xA6F0, 0xA6F1), (0xA700, 0xA721),
     (0xA770, 0xA770), (0xA788, 0xA78A), (0xA7F2, 0xA7F4), (0xA7F8, 0xA7F9), (0xA802, 0xA802),
     (0xA806, 0xA806), (0xA80B, 0xA80B), (0xA825, 0xA826), (0xA82C, 0xA82C), (0xA8C4, 0xA8C5),
     (0xA8E0, 0xA8F1), (0xA8FF, 0xA8FF), (0xA926, 0xA92D), (0xA947, 0xA951), (0xA980, 0xA982),
     (0xA9B3, 0xA9B3), (0xA9B6, 0xA9B9), (0xA9BC, 0xA9BD), (0xA9CF, 0xA9CF), (0xA9E5, 0xA9E6),
     (0xAA29, 0xAA2E), (0xAA31, 0xAA32), (0xAA35, 0xAA36), (0xAA43, 0xAA43), (0xAA4C, 0xAA4C),
     (0xAA70, 0xAA70), (0xAA7C, 0xAA7C), (0xAAB0, 0xAAB0), (0xAAB2, 0xAAB4), (0xAAB7, 0xAAB8),
     (0xAABE, 0xAABF), (0xAAC1, 0xAAC1), (0xAADD, 0xAADD), (0xAAEC, 0xAAED), (0xAAF3, 0xAAF4),
     (0xAAF6, 0xAAF6), (0xAB5B, 0xAB5F), (0xAB69, 0xAB6B), (0xABE5, 0xABE5), (0xABE8, 0xABE8),
     (0xABED, 0xABED), (0xFB1E, 0xFB1E), (0xFBB2, 0xFBC2), (0xFE00, 0xFE0F), (0xFE13, 0xFE13),
     (0xFE20, 0xFE2F), (0xFE52, 0xFE52), (0xFE55, 0xFE55), (0xFEFF, 0xFEFF), (0xFF07, 0xFF07),
     (0xFF0E, 0xFF0E), (0xFF1A, 0xFF1A), (0xFF3E, 0xFF3E), (0xFF40, 0xFF40), (0xFF70, 0xFF70),
     (0xFF9E, 0xFF9F), (0xFFE3, 0xFFE3), (0xFFF9, 0xFFFB), (0x101FD, 0x101FD), (0x102E0, 0x102E0),
     (0x10376, 0x1037A), (0x10780, 0x10785), (0x10787, 0x107B0), (0x107B2, 0x107BA), (0x10A01, 0x10A03),
     (0x10A05, 0x10A06), (0x10A0C, 0x10A0F), (0x10A38, 0x10A3A), (0x10A3F, 0x10A3F), (0x10AE5, 0x10AE6),
     (0x10D24, 0x10D27), (0x10EAB, 0x10EAC), (0x10F46, 0x10F50), (0x10F82, 0x10F85), (0x11001, 0x11001),
     (0x11038, 0x11046), (0x11070, 0x11070), (0x11073, 0x11074), (0x1107F, 0x11081), (0x110B3, 0x110B6),
     (0x110B9, 0x110BA), (0x110BD, 0x110BD), (0x110C2, 0x110C2), (0x110CD, 0x110CD), (0x11100, 0x11102),
     (0x11127, 0x1112B), (0x1112D, 0x11134), (0x11173, 0x11173), (0x11180, 0x11181), (0x111B6, 0x111BE),
     (0x111C9, 0x111CC), (0x111CF, 0x111CF), (0x1122F, 0x11231), (0x11234, 0x11234), (0x11236, 0x11237),
     (0x1123E, 0x1123E), (0x112DF, 0x112DF), (0x112E3, 0x112EA), (0x11300, 0x11301), (0x1133B, 0x1133C),
     (0x11340, 0x11340), (0x11366, 0x1136C), (0x11370, 0x11374), (0x11438, 0x1143F), (0x11442, 0x11444),
     (0x11446, 0x11446), (0x1145E, 0x1145E), (0x114B3, 0x114B8), (0x114BA, 0x114BA), (0x114BF, 0x114C0),
     (0x114C2, 0x114C3), (0x115B2, 0x115B5), (0x115BC, 0x115BD), (0x115BF, 0x115C0), (0x115DC, 0x115DD),
     (0x11633, 0x1163A), (0x1163D, 0x1163D), (0x1163F, 0x11640), (0x116AB, 0x116AB), (0x116AD, 0x116AD),
     (0x116B0, 0x116B5), (0x116B7, 0x116B7), (0x1171D, 0x1171F), (0x11722, 0x11725), (0x11727, 0x1172B),
     (0x1182F, 0x11837), (0x11839, 0x1183A), (0x1193B, 0x1193C), (0x1193E, 0x1193E), (0x11943, 0x11943),
     (0x119D4, 0x119D7), (0x119DA, 0x119DB), (0x119E0, 0x119E0), (0x11A01, 0x11A0A), (0x11A33, 0x11A38),
     (0x11A3B, 0x11A3E), (0x11A47, 0x11A47), (0x11A51, 0x11A56), (0x11A59, 0x11A5B), (0x11A8A, 0x11A96),
     (0x11A98, 0x11A99), (0x11C30, 0x11C36), (0x11C38, 0x11C3D), (0x11C3F, 0x11C3F), (0x11C92, 0x11CA7),
     (0x11CAA, 0x11CB0), (0x11CB2, 0x11CB3), (0x11CB5, 0x11CB6), (0x11D31, 0x11D36), (0x11D3A, 0x11D3A),
     (0x11D3C, 0x11D3D), (0x11D3F, 0x11D45), (0x11D47, 0x11D47), (0x11D90, 0x11D91), (0x11D95, 0x11D95),
     (0x11D97, 0x11D97), (0x11EF3, 0x11EF4), (0x13430, 0x13438), (0x16AF0, 0x16AF4), (0x16B30, 0x16B36),
     (0x16B40, 0x16B43), (0x16F4F, 0x16F4F), (0x16F8F, 0x16F9F), (0x16FE0, 0x16FE1), (0x16FE3, 0x16FE4),
     (0x1AFF0, 0x1AFF3), (0x1AFF5, 0x1AFFB), (0x1AFFD, 0x1AFFE), (0x1BC9D, 0x1BC9E), (0x1BCA0, 0x1BCA3),
     (0x1CF00, 0x1CF2D), (0x1CF30, 0x1CF46), (0x1D167, 0x1D169), (0x1D173, 0x1D182), (0x1D185, 0x1D18B),
     (0x1D1AA, 0x1D1AD), (0x1D242, 0x1D244), (0x1DA00, 0x1DA36), (0x1DA3B, 0x1DA6C), (0x1DA75, 0x1DA75),
     (0x1DA84, 0x1DA84), (0x1DA9B, 0x1DA9F), (0x1DAA1, 0x1DAAF), (0x1E000, 0x1E006), (0x1E008, 0x1E018),
     (0x1E01B, 0x1E021), (0x1E023, 0x1E024), (0x1E026, 0x1E02A), (0x1E130, 0x1E13D), (0x1E2AE, 0x1E2AE),
     (0x1E2EC, 0x1E2EF), (0x1E8D0, 0x1E8D6), (0x1E944, 0x1E94B), (0x1F3FB, 0x1F3FF), (0xE0001, 0xE0001),
     (0xE0020, 0xE007F), (0xE0100, 0xE01EF)]"

definition is_cased :: "int \<Rightarrow> bool" where
  "is_cased c = in_ranges cased_ranges c"

definition is_case_ignorable :: "int \<Rightarrow> bool" where
  "is_case_ignorable c = in_ranges case_ignorable_ranges c"

text \<open>
  \<^verbatim>\<open>handle_capital_sigma\<close> of \<^verbatim>\<open>unicodeobject.c\<close>: a capital sigma, U+03A3, becomes the final
  sigma U+03C2 when the nearest code point before it that is not case-ignorable exists
  and is cased, and the nearest one after it that is not case-ignorable does not exist
  or is not cased; otherwise it becomes U+03C3. Both are read in the string as it was.
\<close>

definition final_sigma :: "ustring \<Rightarrow> ustring \<Rightarrow> bool" where
  "final_sigma before after =
     (case dropWhile is_case_ignorable (rev before) of
        [] \<Rightarrow> False
      | c # _ \<Rightarrow>
          is_cased c \<and>
          (case dropWhile is_case_ignorable after of
             [] \<Rightarrow> True
           | d # _ \<Rightarrow> \<not> is_cased d))"

text \<open>\<^verbatim>\<open>lower_ucs4\<close>: the code point \<open>c\<close> between \<open>before\<close> and \<open>after\<close>.\<close>

definition lower_ucs4 :: "ustring \<Rightarrow> int \<Rightarrow> ustring \<Rightarrow> ustring" where
  "lower_ucs4 before c after =
     (if c = 0x3A3 then [if final_sigma before after then 0x3C2 else 0x3C3]
      else to_lower_full c)"

text \<open>\<^verbatim>\<open>do_lower\<close>: the loop over the positions of the string, collecting the mappings.\<close>

fun do_lower :: "ustring \<Rightarrow> ustring \<Rightarrow> ustring" where
  "do_lower before [] = []"
| "do_lower before (c # after) = lower_ucs4 before c after @ do_lower (before @ [c]) after"

text \<open>
  \<^verbatim>\<open>str.lower()\<close>: a string of ASCII only goes through \<^verbatim>\<open>Py_TOLOWER\<close>, character by
  character; any other string goes through \<^verbatim>\<open>do_lower\<close>.
\<close>

fun is_ascii :: "ustring \<Rightarrow> bool" where
  "is_ascii [] = True"
| "is_ascii (c # cs) = (0 \<le> c \<and> c < 128 \<and> is_ascii cs)"

definition ascii_tolower :: "int \<Rightarrow> int" where
  "ascii_tolower c = (if 0x41 \<le> c \<and> c \<le> 0x5A then c + 0x20 else c)"

definition py_lower :: "ustring \<Rightarrow> ustring" where
  "py_lower s = (if is_ascii s then map ascii_tolower s else do_lower [] s)"

text \<open>\<^verbatim>\<open>def normalize_name(name): return name.strip().lower()\<close>\<close>

definition normalize_name :: "ustring \<Rightarrow> ustring" where
  "normalize_name name = py_lower (py_strip name)"

text \<open>
  The words of the specification for the same function. A string \<open>t\<close> is \<open>raw\<close> with its
  leading and trailing whitespace removed when \<open>raw\<close> is \<open>t\<close> between two runs of
  whitespace and \<open>t\<close> neither starts nor ends with whitespace.
\<close>

fun all_space :: "ustring \<Rightarrow> bool" where
  "all_space [] = True"
| "all_space (c # cs) = (isspace c \<and> all_space cs)"

fun bare_ends :: "ustring \<Rightarrow> bool" where
  "bare_ends [] = True"
| "bare_ends (c # cs) = (\<not> isspace c \<and> \<not> isspace (last (c # cs)))"

definition trimmed_of :: "ustring \<Rightarrow> ustring \<Rightarrow> bool" where
  "trimmed_of raw t =
     (\<exists>pre suf. raw = pre @ t @ suf \<and> all_space pre \<and> all_space suf \<and> bare_ends t)"

text \<open>
  Lower case in the words of the specification, from the alphabet rather than from the
  tables of the implementation. \<open>case_pairs\<close> lists every code point of Unicode 14.0.0
  whose lower case is one other code point, each with that lower case: the capital
  letters with their small letters. U+0130 has a lower case of two code points. A string
  is lower-cased position by position; a capital sigma in final position becomes the
  final sigma.
\<close>

definition case_pairs :: "(int \<times> int) list" where
  "case_pairs =
    [(0x41, 0x61), (0x42, 0x62), (0x43, 0x63), (0x44, 0x64), (0x45, 0x65), (0x46, 0x66),
     (0x47, 0x67), (0x48, 0x68), (0x49, 0x69), (0x4A, 0x6A), (0x4B, 0x6B), (0x4C, 0x6C),
     (0x4D, 0x6D), (0x4E, 0x6E), (0x4F, 0x6F), (0x50, 0x70), (0x51, 0x71), (0x52, 0x72),
     (0x53, 0x73), (0x54, 0x74), (0x55, 0x75), (0x56, 0x76), (0x57, 0x77), (0x58, 0x78),
     (0x59, 0x79), (0x5A, 0x7A), (0xC0, 0xE0), (0xC1, 0xE1), (0xC2, 0xE2), (0xC3, 0xE3),
     (0xC4, 0xE4), (0xC5, 0xE5), (0xC6, 0xE6), (0xC7, 0xE7), (0xC8, 0xE8), (0xC9, 0xE9),
     (0xCA, 0xEA), (0xCB, 0xEB), (0xCC, 0xEC), (0xCD, 0xED), (0xCE, 0xEE), (0xCF, 0xEF),
     (0xD0, 0xF0), (0xD1, 0xF1), (0xD2, 0xF2), (0xD3, 0xF3), (0xD4, 0xF4), (0xD5, 0xF5),
     (0xD6, 0xF6), (0xD8, 0xF8), (0xD9, 0xF9), (0xDA, 0xFA), (0xDB, 0xFB), (0xDC, 0xFC),
     (0xDD, 0xFD), (0xDE, 0xFE), (0x100, 0x101), (0x102, 0x103), (0x104, 0x105), (0x106, 0x107),
     (0x108, 0x109), (0x10A, 0x10B), (0x10C, 0x10D), (0x10E, 0x10F), (0x110, 0x111), (0x112, 0x113),
     (0x114, 0x115), (0x116, 0x117), (0x118, 0x119), (0x11A, 0x11B), (0x11C, 0x11D), (0x11E, 0x11F),
     (0x120, 0x121), (0x122, 0x123), (0x124, 0x125), (0x126, 0x127), (0x128, 0x129), (0x12A, 0x12B),
     (0x12C, 0x12D), (0x12E, 0x12F), (0x132, 0x133), (0x134, 0x135), (0x136, 0x137), (0x139, 0x13A),
     (0x13B, 0x13C), (0x13D, 0x13E), (0x13F, 0x140), (0x141, 0x142), (0x143, 0x144), (0x145, 0x146),
     (0x147, 0x148), (0x14A, 0x14B), (0x14C, 0x14D), (0x14E, 0x14F), (0x150, 0x151), (0x152, 0x153),
     (0x154, 0x155), (0x156, 0x157), (0x158, 0x159), (0x15A, 0x15B), (0x15C, 0x15D), (0x15E, 0x15F),
     (0x160, 0x161), (0x162, 0x163), (0x164, 0x165), (0x166, 0x167), (0x168, 0x169), (0x16A, 0x16B),
     (0x16C, 0x16D), (0x16E, 0x16F), (0x170, 0x171), (0x172, 0x173), (0x174, 0x175), (0x176, 0x177),
     (0x178, 0xFF), (0x179, 0x17A), (0x17B, 0x17C), (0x17D, 0x17E), (0x181, 0x253), (0x182, 0x183),
     (0x184, 0x185), (0x186, 0x254), (0x187, 0x188), (0x189, 0x256), (0x18A, 0x257), (0x18B, 0x18C),
     (0x18E, 0x1DD), (0x18F, 0x259), (0x190, 0x25B), (0x191, 0x192), (0x193, 0x260), (0x194, 0x263),
     (0x196, 0x269), (0x197, 0x268), (0x198, 0x199), (0x19C, 0x26F), (0x19D, 0x272), (0x19F, 0x275),
     (0x1A0, 0x1A1), (0x1A2, 0x1A3), (0x1A4, 0x1A5), (0x1A6, 0x280), (0x1A7, 0x1A8), (0x1A9, 0x283),
     (0x1AC, 0x1AD), (0x1AE, 0x288), (0x1AF, 0x1B0), (0x1B1, 0x28A), (0x1B2, 0x28B), (0x1B3, 0x1B4),
     (0x1B5, 0x1B6), (0x1B7, 0x292), (0x1B8, 0x1B9), (0x1BC, 0x1BD), (0x1C4, 0x1C6), (0x1C5, 0x1C6),
     (0x1C7, 0x1C9), (0x1C8, 0x1C9), (0x1CA, 0x1CC), (0x1CB, 0x1CC), (0x1CD, 0x1CE), (0x1CF, 0x1D0),
     (0x1D1, 0x1D2), (0x1D3, 0x1D4), (0x1D5, 0x1D6), (0x1D7, 0x1D8), (0x1D9, 0x1DA), (0x1DB, 0x1DC),
     (0x1DE, 0x1DF), (0x1E0, 0x1E1), (0x1E2, 0x1E3), (0x1E4, 0x1E5), (0x1E6, 0x1E7), (0x1E8, 0x1E9),
     (0x1EA, 0x1EB), (0x1EC, 0x1ED), (0x1EE, 0x1EF), (0x1F1, 0x1F3), (0x1F2, 0x1F3), (0x1F4, 0x1F5),
     (0x1F6, 0x195), (0x1F7, 0x1BF), (0x1F8, 0x1F9), (0x1FA, 0x1FB), (0x1FC, 0x1FD), (0x1FE, 0x1FF),
     (0x200, 0x201), (0x202, 0x203), (0x204, 0x205), (0x206, 0x207), (0x208, 0x209), (0x20A, 0x20B),
     (0x20C, 0x20D), (0x20E, 0x20F), (0x210, 0x211), (0x212, 0x213), (0x214, 0x215), (0x216, 0x217),
     (0x218, 0x219), (0x21A, 0x21B), (0x21C, 0x21D), (0x21E, 0x21F), (0x220, 0x19E), (0x222, 0x223),
     (0x224, 0x225), (0x226, 0x227), (0x228, 0x229), (0x22A, 0x22B), (0x22C, 0x22D), (0x22E, 0x22F),
     (0x230, 0x231), (0x232, 0x233), (0x23A, 0x2C65), (0x23B, 0x23C), (0x23D, 0x19A), (0x23E, 0x2C66),
     (0x241, 0x242), (0x243, 0x180), (0x244, 0x289), (0x245, 0x28C), (0x246, 0x247), (0x248, 0x249),
     (0x24A, 0x24B), (0x24C, 0x24D), (0x24E, 0x24F), (0x370, 0x371), (0x372, 0x373), (0x376, 0x377),
     (0x37F, 0x3F3), (0x386, 0x3AC), (0x388, 0x3AD), (0x389, 0x3AE), (0x38A, 0x3AF), (0x38C, 0x3CC),
     (0x38E, 0x3CD), (0x38F, 0x3CE), (0x391, 0x3B1), (0x392, 0x3B2), (0x393, 0x3B3), (0x394, 0x3B4),
     (0x395, 0x3B5), (0x396, 0x3B6), (0x397, 0x3B7), (0x398, 0x3B8), (0x399, 0x3B9), (0x39A, 0x3BA),
     (0x39B, 0x3BB), (0x39C, 0x3BC), (0x39D, 0x3BD), (0x39E, 0x3BE), (0x39F, 0x3BF), (0x3A0, 0x3C0),
     (0x3A1, 0x3C1), (0x3A3, 0x3C3), (0x3A4, 0x3C4), (0x3A5, 0x3C5), (0x3A6, 0x3C6), (0x3A7, 0x3C7),
     (0x3A8, 0x3C8), (0x3A9, 0x3C9), (0x3AA, 0x3CA), (0x3AB, 0x3CB), (0x3CF, 0x3D7), (0x3D8, 0x3D9),
     (0x3DA, 0x3DB), (0x3DC, 0x3DD), (0x3DE, 0x3DF), (0x3E0, 0x3E1), (0x3E2, 0x3E3), (0x3E4, 0x3E5),
     (0x3E6, 0x3E7), (0x3E8, 0x3E9), (0x3EA, 0x3EB), (0x3EC, 0x3ED), (0x3EE, 0x3EF), (0x3F4, 0x3B8),
     (0x3F7, 0x3F8), (0x3F9, 0x3F2), (0x3FA, 0x3FB), (0x3FD, 0x37B), (0x3FE, 0x37C), (0x3FF, 0x37D),
     (0x400, 0x450), (0x401, 0x451), (0x402, 0x452), (0x403, 0x453), (0x404, 0x454), (0x405, 0x455),
     (0x406, 0x456), (0x407, 0x457), (0x408, 0x458), (0x409, 0x459), (0x40A, 0x45A), (0x40B, 0x45B),
     (0x40C, 0x45C), (0x40D, 0x45D), (0x40E, 0x45E), (0x40F, 0x45F), (0x410, 0x430), (0x411, 0x431),
     (0x412, 0x432), (0x413, 0x433), (0x414, 0x434), (0x415, 0x435), (0x416, 0x436), (0x417, 0x437),
     (0x418, 0x438), (0x419, 0x439), (0x41A, 0x43A), (0x41B, 0x43B), (0x41C, 0x43C), (0x41D, 0x43D),
     (0x41E, 0x43E), (0x41F, 0x43F), (0x420, 0x440), (0x421, 0x441), (0x422, 0x442), (0x423, 0x443),
     (0x424, 0x444), (0x425, 0x445), (0x426, 0x446), (0x427, 0x447), (0x428, 0x448), (0x429, 0x449),
     (0x42A, 0x44A), (0x42B, 0x44B), (0x42C, 0x44C), (0x42D, 0x44D), (0x42E, 0x44E), (0x42F, 0x44F),
     (0x460, 0x461), (0x462, 0x463), (0x464, 0x465), (0x466, 0x467), (0x468, 0x469), (0x46A, 0x46B),
     (0x46C, 0x46D), (0x46E, 0x46F), (0x470, 0x471), (0x472, 0x473), (0x474, 0x475), (0x476, 0x477),
     (0x478, 0x479), (0x47A, 0x47B), (0x47C, 0x47D), (0x47E, 0x47F), (0x480, 0x481), (0x48A, 0x48B),
     (0x48C, 0x48D), (0x48E, 0x48F), (0x490, 0x491), (0x492, 0x493), (0x494, 0x495), (0x496, 0x497),
     (0x498, 0x499), (0x49A, 0x49B), (0x49C, 0x49D), (0x49E, 0x49F), (0x4A0, 0x4A1), (0x4A2, 0x4A3),
     (0x4A4, 0x4A5), (0x4A6, 0x4A7), (0x4A8, 0x4A9), (0x4AA, 0x4AB), (0x4AC, 0x4AD), (0x4AE, 0x4AF),
     (0x4B0, 0x4B1), (0x4B2, 0x4B3), (0x4B4, 0x4B5), (0x4B6, 0x4B7), (0x4B8, 0x4B9), (0x4BA, 0x4BB),
     (0x4BC, 0x4BD), (0x4BE, 0x4BF), (0x4C0, 0x4CF), (0x4C1, 0x4C2), (0x4C3, 0x4C4), (0x4C5, 0x4C6),
     (0x4C7, 0x4C8), (0x4C9, 0x4CA), (0x4CB, 0x4CC), (0x4CD, 0x4CE), (0x4D0, 0x4D1), (0x4D2, 0x4D3),
     (0x4D4, 0x4D5), (0x4D6, 0x4D7), (0x4D8, 0x4D9), (0x4DA, 0x4DB), (0x4DC, 0x4DD), (0x4DE, 0x4DF),
     (0x4E0, 0x4E1), (0x4E2, 0x4E3), (0x4E4, 0x4E5), (0x4E6, 0x4E7), (0x4E8, 0x4E9), (0x4EA, 0x4EB),
     (0x4EC, 0x4ED), (0x4EE, 0x4EF), (0x4F0, 0x4F1), (0x4F2, 0x4F3), (0x4F4, 0x4F5), (0x4F6, 0x4F7),
     (0x4F8, 0x4F9), (0x4FA, 0x4FB), (0x4FC, 0x4FD), (0x4FE, 0x4FF), (0x500, 0x501), (0x502, 0x503),
     (0x504, 0x505), (0x506, 0x507), (0x508, 0x509), (0x50A, 0x50B), (0x50C, 0x50D), (0x50E, 0x50F),
     (0x510, 0x511), (0x512, 0x513), (0x514, 0x515), (0x516, 0x517), (0x518, 0x519), (0x51A, 0x51B),
     (0x51C, 0x51D), (0x51E, 0x51F), (0x520, 0x521), (0x522, 0x523), (0x524, 0x525), (0x526, 0x527),
     (0x528, 0x529), (0x52A, 0x52B), (0x52C, 0x52D), (0x52E, 0x52F), (0x531, 0x561), (0x532, 0x562),
     (0x533, 0x563), (0x534, 0x564), (0x535, 0x565), (0x536, 0x566), (0x537, 0x567), (0x538, 0x568),
     (0x539, 0x569), (0x53A, 0x56A), (0x53B, 0x56B), (0x53C, 0x56C), (0x53D, 0x56D), (0x53E, 0x56E),
     (0x53F, 0x56F), (0x540, 0x570), (0x541, 0x571), (0x542, 0x572), (0x543, 0x573), (0x544, 0x574),
     (0x545, 0x575), (0x546, 0x576), (0x547, 0x577), (0x548, 0x578), (0x549, 0x579), (0x54A, 0x57A),
     (0x54B, 0x57B), (0x54C, 0x57C), (0x54D, 0x57D), (0x54E, 0x57E), (0x54F, 0x57F), (0x550, 0x580),
     (0x551, 0x581), (0x552, 0x582), (0x553, 0x583), (0x554, 0x584), (0x555, 0x585), (0x556, 0x586),
     (0x10A0, 0x2D00), (0x10A1, 0x2D01), (0x10A2, 0x2D02), (0x10A3, 0x2D03), (0x10A4, 0x2D04), (0x10A5, 0x2D05),
     (0x10A6, 0x2D06), (0x10A7, 0x2D07), (0x10A8, 0x2D08), (0x10A9, 0x2D09), (0x10AA, 0x2D0A), (0x10AB, 0x2D0B),
     (0x10AC, 0x2D0C), (0x10AD, 0x2D0D), (0x10AE, 0x2D0E), (0x10AF, 0x2D0F), (0x10B0, 0x2D10), (0x10B1, 0x2D11),
     (0x10B2, 0x2D12), (0x10B3, 0x2D13), (0x10B4, 0x2D14), (0x10B5, 0x2D15), (0x10B6, 0x2D16), (0x10B7, 0x2D17),
     (0x10B8, 0x2D18), (0x10B9, 0x2D19), (0x10BA, 0x2D1A), (0x10BB, 0x2D1B), (0x10BC, 0x2D1C), (0x10BD, 0x2D1D),
     (0x10BE, 0x2D1E), (0x10BF, 0x2D1F), (0x10C0, 0x2D20), (0x10C1, 0x2D21), (0x10C2, 0x2D22), (0x10C3, 0x2D23),
     (0x10C4, 0x2D24), (0x10C5, 0x2D25), (0x10C7, 0x2D27), (0x10CD, 0x2D2D), (0x13A0, 0xAB70), (0x13A1, 0xAB71),
     (0x13A2, 0xAB72), (0x13A3, 0xAB73), (0x13A4, 0xAB74), (0x13A5, 0xAB75), (0x13A6, 0xAB76), (0x13A7, 0xAB77),
     (0x13A8, 0xAB78), (0x13A9, 0xAB79), (0x13AA, 0xAB7A), (0x13AB, 0xAB7B), (0x13AC, 0xAB7C), (0x13AD, 0xAB7D),
     (0x13AE, 0xAB7E), (0x13AF, 0xAB7F), (0x13B0, 0xAB80), (0x13B1, 0xAB81), (0x13B2, 0xAB82), (0x13B3, 0xAB83),
     (0x13B4, 0xAB84), (0x13B5, 0xAB85), (0x13B6, 0xAB86), (0x13B7, 0xAB87), (0x13B8, 0xAB88), (0x13B9, 0xAB89),
     (0x13BA, 0xAB8A), (0x13BB, 0xAB8B), (0x13BC, 0xAB8C), (0x13BD, 0xAB8D), (0x13BE, 0xAB8E), (0x13BF, 0xAB8F),
     (0x13C0, 0xAB90), (0x13C1, 0xAB91), (0x13C2, 0xAB92), (0x13C3, 0xAB93), (0x13C4, 0xAB94), (0x13C5, 0xAB95),
     (0x13C6, 0xAB96), (0x13C7, 0xAB97), (0x13C8, 0xAB98), (0x13C9, 0xAB99), (0x13CA, 0xAB9A), (0x13CB, 0xAB9B),
     (0x13CC, 0xAB9C), (0x13CD, 0xAB9D), (0x13CE, 0xAB9E), (0x13CF, 0xAB9F), (0x13D0, 0xABA0), (0x13D1, 0xABA1),
     (0x13D2, 0xABA2), (0x13D3, 0xABA3), (0x13D4, 0xABA4), (0x13D5, 0xABA5), (0x13D6, 0xABA6), (0x13D7, 0xABA7),
     (0x13D8, 0xABA8), (0x13D9, 0xABA9), (0x13DA, 0xABAA), (0x13DB, 0xABAB), (0x13DC, 0xABAC), (0x13DD, 0xABAD),
     (0x13DE, 0xABAE), (0x13DF, 0xABAF), (0x13E0, 0xABB0), (0x13E1, 0xABB1), (0x13E2, 0xABB2), (0x13E3, 0xABB3),
     (0x13E4, 0xABB4), (0x13E5, 0xABB5), (0x13E6, 0xABB6), (0x13E7, 0xABB7), (0x13E8, 0xABB8), (0x13E9, 0xABB9),
     (0x13EA, 0xABBA), (0x13EB, 0xABBB), (0x13EC, 0xABBC), (0x13ED, 0xABBD), (0x13EE, 0xABBE), (0x13EF, 0xABBF),
     (0x13F0, 0x13F8), (0x13F1, 0x13F9), (0x13F2, 0x13FA), (0x13F3, 0x13FB), (0x13F4, 0x13FC), (0x13F5, 0x13FD),
     (0x1C90, 0x10D0), (0x1C91, 0x10D1), (0x1C92, 0x10D2), (0x1C93, 0x10D3), (0x1C94, 0x10D4), (0x1C95, 0x10D5),
     (0x1C96, 0x10D6), (0x1C97, 0x10D7), (0x1C98, 0x10D8), (0x1C99, 0x10D9), (0x1C9A, 0x10DA), (0x1C9B, 0x10DB),
     (0x1C9C, 0x10DC), (0x1C9D, 0x10DD), (0x1C9E, 0x10DE), (0x1C9F, 0x10DF), (0x1CA0, 0x10E0), (0x1CA1, 0x10E1),
     (0x1CA2, 0x10E2), (0x1CA3, 0x10E3), (0x1CA4, 0x10E4), (0x1CA5, 0x10E5), (0x1CA6, 0x10E6), (0x1CA7, 0x10E7),
     (0x1CA8, 0x10E8), (0x1CA9, 0x10E9), (0x1CAA, 0x10EA), (0x1CAB, 0x10EB), (0x1CAC, 0x10EC), (0x1CAD, 0x10ED),
     (0x1CAE, 0x10EE), (0x1CAF, 0x10EF), (0x1CB0, 0x10F0), (0x1CB1, 0x10F1), (0x1CB2, 0x10F2), (0x1CB3, 0x10F3),
     (0x1CB4, 0x10F4), (0x1CB5, 0x10F5), (0x1CB6, 0x10F6), (0x1CB7, 0x10F7), (0x1CB8, 0x10F8), (0x1CB9, 0x10F9),
     (0x1CBA, 0x10FA), (0x1CBD, 0x10FD), (0x1CBE, 0x10FE), (0x1CBF, 0x10FF), (0x1E00, 0x1E01), (0x1E02, 0x1E03),
     (0x1E04, 0x1E05), (0x1E06, 0x1E07), (0x1E08, 0x1E09), (0x1E0A, 0x1E0B), (0x1E0C, 0x1E0D), (0x1E0E, 0x1E0F),
     (0x1E10, 0x1E11), (0x1E12, 0x1E13), (0x1E14, 0x1E15), (0x1E16, 0x1E17), (0x1E18, 0x1E19), (0x1E1A, 0x1E1B),
     (0x1E1C, 0x1E1D), (0x1E1E, 0x1E1F), (0x1E20, 0x1E21), (0x1E22, 0x1E23), (0x1E24, 0x1E25), (0x1E26, 0x1E27),
     (0x1E28, 0x1E29), (0x1E2A, 0x1E2B), (0x1E2C, 0x1E2D), (0x1E2E, 0x1E2F), (0x1E30, 0x1E31), (0x1E32, 0x1E33),
     (0x1E34, 0x1E35), (0x1E36, 0x1E37), (0x1E38, 0x1E39), (0x1E3A, 0x1E3B), (0x1E3C, 0x1E3D), (0x1E3E, 0x1E3F),
     (0x1E40, 0x1E41), (0x1E42, 0x1E43), (0x1E44, 0x1E45), (0x1E46, 0x1E47), (0x1E48, 0x1E49), (0x1E4A, 0x1E4B),
     (0x1E4C, 0x1E4D), (0x1E4E, 0x1E4F), (0x1E50, 0x1E51), (0x1E52, 0x1E53), (0x1E54, 0x1E55), (0x1E56, 0x1E57),
     (0x1E58, 0x1E59), (0x1E5A, 0x1E5B), (0x1E5C, 0x1E5D), (0x1E5E, 0x1E5F), (0x1E60, 0x1E61), (0x1E62, 0x1E63),
     (0x1E64, 0x1E65), (0x1E66, 0x1E67), (0x1E68, 0x1E69), (0x1E6A, 0x1E6B), (0x1E6C, 0x1E6D), (0x1E6E, 0x1E6F),
     (0x1E70, 0x1E71), (0x1E72, 0x1E73), (0x1E74, 0x1E75), (0x1E76, 0x1E77), (0x1E78, 0x1E79), (0x1E7A, 0x1E7B),
     (0x1E7C, 0x1E7D), (0x1E7E, 0x1E7F), (0x1E80, 0x1E81), (0x1E82, 0x1E83), (0x1E84, 0x1E85), (0x1E86, 0x1E87),
     (0x1E88, 0x1E89), (0x1E8A, 0x1E8B), (0x1E8C, 0x1E8D), (0x1E8E, 0x1E8F), (0x1E90, 0x1E91), (0x1E92, 0x1E93),
     (0x1E94, 0x1E95), (0x1E9E, 0xDF), (0x1EA0, 0x1EA1), (0x1EA2, 0x1EA3), (0x1EA4, 0x1EA5), (0x1EA6, 0x1EA7),
     (0x1EA8, 0x1EA9), (0x1EAA, 0x1EAB), (0x1EAC, 0x1EAD), (0x1EAE, 0x1EAF), (0x1EB0, 0x1EB1), (0x1EB2, 0x1EB3),
     (0x1EB4, 0x1EB5), (0x1EB6, 0x1EB7), (0x1EB8, 0x1EB9), (0x1EBA, 0x1EBB), (0x1EBC, 0x1EBD), (0x1EBE, 0x1EBF),
     (0x1EC0, 0x1EC1), (0x1EC2, 0x1EC3), (0x1EC4, 0x1EC5), (0x1EC6, 0x1EC7), (0x1EC8, 0x1EC9), (0x1ECA, 0x1ECB),
     (0x1ECC, 0x1ECD), (0x1ECE, 0x1ECF), (0x1ED0, 0x1ED1), (0x1ED2, 0x1ED3), (0x1ED4, 0x1ED5), (0x1ED6, 0x1ED7),
     (0x1ED8, 0x1ED9), (0x1EDA, 0x1EDB), (0x1EDC, 0x1EDD), (0x1EDE, 0x1EDF), (0x1EE0, 0x1EE1), (0x1EE2, 0x1EE3),
     (0x1EE4, 0x1EE5), (0x1EE6, 0x1EE7), (0x1EE8, 0x1EE9), (0x1EEA, 0x1EEB), (0x1EEC, 0x1EED), (0x1EEE, 0x1EEF),
     (0x1EF0, 0x1EF1), (0x1EF2, 0x1EF3), (0x1EF4, 0x1EF5), (0x1EF6, 0x1EF7), (0x1EF8, 0x1EF9), (0x1EFA, 0x1EFB),
     (0x1EFC, 0x1EFD), (0x1EFE, 0x1EFF), (0x1F08, 0x1F00), (0x1F09, 0x1F01), (0x1F0A, 0x1F02), (0x1F0B, 0x1F03),
     (0x1F0C, 0x1F04), (0x1F0D, 0x1F05), (0x1F0E, 0x1F06), (0x1F0F, 0x1F07), (0x1F18, 0x1F10), (0x1F19, 0x1F11),
     (0x1F1A, 0x1F12), (0x1F1B, 0x1F13), (0x1F1C, 0x1F14), (0x1F1D, 0x1F15), (0x1F28, 0x1F20), (0x1F29, 0x1F21),
     (0x1F2A, 0x1F22), (0x1F2B, 0x1F23), (0x1F2C, 0x1F24), (0x1F2D, 0x1F25), (0x1F2E, 0x1F26), (0x1F2F, 0x1F27),
     (0x1F38, 0x1F30), (0x1F39, 0x1F31), (0x1F3A, 0x1F32), (0x1F3B, 0x1F33), (0x1F3C, 0x1F34), (0x1F3D, 0x1F35),
     (0x1F3E, 0x1F36), (0x1F3F, 0x1F37), (0x1F48, 0x1F40), (0x1F49, 0x1F41), (0x1F4A, 0x1F42), (0x1F4B, 0x1F43),
     (0x1F4C, 0x1F44), (0x1F4D, 0x1F45), (0x1F59, 0x1F51), (0x1F5B, 0x1F53), (0x1F5D, 0x1F55), (0x1F5F, 0x1F57),
     (0x1F68, 0x1F60), (0x1F69, 0x1F61), (0x1F6A, 0x1F62), (0x1F6B, 0x1F63), (0x1F6C, 0x1F64), (0x1F6D, 0x1F65),
     (0x1F6E, 0x1F66), (0x1F6F, 0x1F67), (0x1F88, 0x1F80), (0x1F89, 0x1F81), (0x1F8A, 0x1F82), (0x1F8B, 0x1F83),
     (0x1F8C, 0x1F84), (0x1F8D, 0x1F85), (0x1F8E, 0x1F86), (0x1F8F, 0x1F87), (0x1F98, 0x1F90), (0x1F99, 0x1F91),
     (0x1F9A, 0x1F92), (0x1F9B, 0x1F93), (0x1F9C, 0x1F94), (0x1F9D, 0x1F95), (0x1F9E, 0x1F96), (0x1F9F, 0x1F97),
     (0x1FA8, 0x1FA0), (0x1FA9, 0x1FA1), (0x1FAA, 0x1FA2), (0x1FAB, 0x1FA3), (0x1FAC, 0x1FA4), (0x1FAD, 0x1FA5),
     (0x1FAE, 0x1FA6), (0x1FAF, 0x1FA7), (0x1FB8, 0x1FB0), (0x1FB9, 0x1FB1), (0x1FBA, 0x1F70), (0x1FBB, 0x1F71),
     (0x1FBC, 0x1FB3), (0x1FC8, 0x1F72), (0x1FC9, 0x1F73), (0x1FCA, 0x1F74), (0x1FCB, 0x1F75), (0x1FCC, 0x1FC3),
     (0x1FD8, 0x1FD0), (0x1FD9, 0x1FD1), (0x1FDA, 0x1F76), (0x1FDB, 0x1F77), (0x1FE8, 0x1FE0), (0x1FE9, 0x1FE1),
     (0x1FEA, 0x1F7A), (0x1FEB, 0x1F7B), (0x1FEC, 0x1FE5), (0x1FF8, 0x1F78), (0x1FF9, 0x1F79), (0x1FFA, 0x1F7C),
     (0x1FFB, 0x1F7D), (0x1FFC, 0x1FF3), (0x2126, 0x3C9), (0x212A, 0x6B), (0x212B, 0xE5), (0x2132, 0x214E),
     (0x2160, 0x2170), (0x2161, 0x2171), (0x2162, 0x2172), (0x2163, 0x2173), (0x2164, 0x2174), (0x2165, 0x2175),
     (0x2166, 0x2176), (0x2167, 0x2177), (0x2168, 0x2178), (0x2169, 0x2179), (0x216A, 0x217A), (0x216B, 0x217B),
     (0x216C, 0x217C), (0x216D, 0x217D), (0x216E, 0x217E), (0x216F, 0x217F), (0x2183, 0x2184), (0x24B6, 0x24D0),
     (0x24B7, 0x24D1), (0x24B8, 0x24D2), (0x24B9, 0x24D3), (0x24BA, 0x24D4), (0x24BB, 0x24D5), (0x24BC, 0x24D6),
     (0x24BD, 0x24D7), (0x24BE, 0x24D8), (0x24BF, 0x24D9), (0x24C0, 0x24DA), (0x24C1, 0x24DB), (0x24C2, 0x24DC),
     (0x24C3, 0x24DD), (0x24C4, 0x24DE), (0x24C5, 0x24DF), (0x24C6, 0x24E0), (0x24C7, 0x24E1), (0x24C8, 0x24E2),
     (0x24C9, 0x24E3), (0x24CA, 0x24E4), (0x24CB, 0x24E5), (0x24CC, 0x24E6), (0x24CD, 0x24E7), (0x24CE, 0x24E8),
     (0x24CF, 0x24E9), (0x2C00, 0x2C30), (0x2C01, 0x2C31), (0x2C02, 0x2C32), (0x2C03, 0x2C33), (0x2C04, 0x2C34),
     (0x2C05, 0x2C35), (0x2C06, 0x2C36), (0x2C07, 0x2C37), (0x2C08, 0x2C38), (0x2C09, 0x2C39), (0x2C0A, 0x2C3A),
     (0x2C0B, 0x2C3B), (0x2C0C, 0x2C3C), (0x2C0D, 0x2C3D), (0x2C0E, 0x2C3E), (0x2C0F, 0x2C3F), (0x2C10, 0x2C40),
     (0x2C11, 0x2C41), (0x2C12, 0x2C42), (0x2C13, 0x2C43), (0x2C14, 0x2C44), (0x2C15, 0x2C45), (0x2C16, 0x2C46),
     (0x2C17, 0x2C47), (0x2C18, 0x2C48), (0x2C19, 0x2C49), (0x2C1A, 0x2C4A), (0x2C1B, 0x2C4B), (0x2C1C, 0x2C4C),
     (0x2C1D, 0x2C4D), (0x2C1E, 0x2C4E), (0x2C1F, 0x2C4F), (0x2C20, 0x2C50), (0x2C21, 0x2C51), (0x2C22, 0x2C52),
     (0x2C23, 0x2C53), (0x2C24, 0x2C54), (0x2C25, 0x2C55), (0x2C26, 0x2C56), (0x2C27, 0x2C57), (0x2C28, 0x2C58),
     (0x2C29, 0x2C59), (0x2C2A, 0x2C5A), (0x2C2B, 0x2C5B), (0x2C2C, 0x2C5C), (0x2C2D, 0x2C5D), (0x2C2E, 0x2C5E),
     (0x2C2F, 0x2C5F), (0x2C60, 0x2C61), (0x2C62, 0x26B), (0x2C63, 0x1D7D), (0x2C64, 0x27D), (0x2C67, 0x2C68),
     (0x2C69, 0x2C6A), (0x2C6B, 0x2C6C), (0x2C6D, 0x251), (0x2C6E, 0x271), (0x2C6F, 0x250), (0x2C70, 0x252),
     (0x2C72, 0x2C73), (0x2C75, 0x2C76), (0x2C7E, 0x23F), (0x2C7F, 0x240), (0x2C80, 0x2C81), (0x2C82, 0x2C83),
     (0x2C84, 0x2C85), (0x2C86, 0x2C87), (0x2C88, 0x2C89), (0x2C8A, 0x2C8B), (0x2C8C, 0x2C8D), (0x2C8E, 0x2C8F),
     (0x2C90, 0x2C91), (0x2C92, 0x2C93), (0x2C94, 0x2C95), (0x2C96, 0x2C97), (0x2C98, 0x2C99), (0x2C9A, 0x2C9B),
     (0x2C9C, 0x2C9D), (0x2C9E, 0x2C9F), (0x2CA0, 0x2CA1), (0x2CA2, 0x2CA3), (0x2CA4, 0x2CA5), (0x2CA6, 0x2CA7),
     (0x2CA8, 0x2CA9), (0x2CAA, 0x2CAB), (0x2CAC, 0x2CAD), (0x2CAE, 0x2CAF), (0x2CB0, 0x2CB1), (0x2CB2, 0x2CB3),
     (0x2CB4, 0x2CB5), (0x2CB6, 0x2CB7), (0x2CB8, 0x2CB9), (0x2CBA, 0x2CBB), (0x2CBC, 0x2CBD), (0x2CBE, 0x2CBF),
     (0x2CC0, 0x2CC1), (0x2CC2, 0x2CC3), (0x2CC4, 0x2CC5), (0x2CC6, 0x2CC7), (0x2CC8, 0x2CC9), (0x2CCA, 0x2CCB),
     (0x2CCC, 0x2CCD), (0x2CCE, 0x2CCF), (0x2CD0, 0x2CD1), (0x2CD2, 0x2CD3), (0x2CD4, 0x2CD5), (0x2CD6, 0x2CD7),
     (0x2CD8, 0x2CD9), (0x2CDA, 0x2CDB), (0x2CDC, 0x2CDD), (0x2CDE, 0x2CDF), (0x2CE0, 0x2CE1), (0x2CE2, 0x2CE3),
     (0x2CEB, 0x2CEC), (0x2CED, 0x2CEE), (0x2CF2, 0x2CF3), (0xA640, 0xA641), (0xA642, 0xA643), (0xA644, 0xA645),
     (0xA646, 0xA647), (0xA648, 0xA649), (0xA64A, 0xA64B), (0xA64C, 0xA64D), (0xA64E, 0xA64F), (0xA650, 0xA651),
     (0xA652, 0xA653), (0xA654, 0xA655), (0xA656, 0xA657), (0xA658, 0xA659), (0xA65A, 0xA65B), (0xA65C, 0xA65D),
     (0xA65E, 0xA65F), (0xA660, 0xA661), (0xA662, 0xA663), (0xA664, 0xA665), (0xA666, 0xA667), (0xA668, 0xA669),
     (0xA66A, 0xA66B), (0xA66C, 0xA66D), (0xA680, 0xA681), (0xA682, 0xA683), (0xA684, 0xA685), (0xA686, 0xA687),
     (0xA688, 0xA689), (0xA68A, 0xA68B), (0xA68C, 0xA68D), (0xA68E, 0xA68F), (0xA690, 0xA691), (0xA692, 0xA693),
     (0xA694, 0xA695), (0xA696, 0xA697), (0xA698, 0xA699), (0xA69A, 0xA69B), (0xA722, 0xA723), (0xA724, 0xA725),
     (0xA726, 0xA727), (0xA728, 0xA729), (0xA72A, 0xA72B), (0xA72C, 0xA72D), (0xA72E, 0xA72F), (0xA732, 0xA733),
     (0xA734, 0xA735), (0xA736, 0xA737), (0xA738, 0xA739), (0xA73A, 0xA73B), (0xA73C, 0xA73D), (0xA73E, 0xA73F),
     (0xA740, 0xA741), (0xA742, 0xA743), (0xA744, 0xA745), (0xA746, 0xA747), (0xA748, 0xA749), (0xA74A, 0xA74B),
     (0xA74C, 0xA74D), (0xA74E, 0xA74F), (0xA750, 0xA751), (0xA752, 0xA753), (0xA754, 0xA755), (0xA756, 0xA757),
     (0xA758, 0xA759), (0xA75A, 0xA75B), (0xA75C, 0xA75D), (0xA75E, 0xA75F), (0xA760, 0xA761), (0xA762, 0xA763),
     (0xA764, 0xA765), (0xA766, 0xA767), (0xA768, 0xA769), (0xA76A, 0xA76B), (0xA76C, 0xA76D), (0xA76E, 0xA76F),
     (0xA779, 0xA77A), (0xA77B, 0xA77C), (0xA77D, 0x1D79), (0xA77E, 0xA77F), (0xA780, 0xA781), (0xA782, 0xA783),
     (0xA784, 0xA785), (0xA786, 0xA787), (0xA78B, 0xA78C), (0xA78D, 0x265), (0xA790, 0xA791), (0xA792, 0xA793),
     (0xA796, 0xA797), (0xA798, 0xA799), (0xA79A, 0xA79B), (0xA79C, 0xA79D), (0xA79E, 0xA79F), (0xA7A0, 0xA7A1),
     (0xA7A2, 0xA7A3), (0xA7A4, 0xA7A5), (0xA7A6, 0xA7A7), (0xA7A8, 0xA7A9), (0xA7AA, 0x266), (0xA7AB, 0x25C),
     (0xA7AC, 0x261), (0xA7AD, 0x26C), (0xA7AE, 0x26A), (0xA7B0, 0x29E), (0xA7B1, 0x287), (0xA7B2, 0x29D),
     (0xA7B3, 0xAB53), (0xA7B4, 0xA7B5), (0xA7B6, 0xA7B7), (0xA7B8, 0xA7B9), (0xA7BA, 0xA7BB), (0xA7BC, 0xA7BD),
     (0xA7BE, 0xA7BF), (0xA7C0, 0xA7C1), (0xA7C2, 0xA7C3), (0xA7C4, 0xA794), (0xA7C5, 0x282), (0xA7C6, 0x1D8E),
     (0xA7C7, 0xA7C8), (0xA7C9, 0xA7CA), (0xA7D0, 0xA7D1), (0xA7D6, 0xA7D7), (0xA7D8, 0xA7D9), (0xA7F5, 0xA7F6),
     (0xFF21, 0xFF41), (0xFF22, 0xFF42), (0xFF23, 0xFF43), (0xFF24, 0xFF44), (0xFF25, 0xFF45), (0xFF26, 0xFF46),
     (0xFF27, 0xFF47), (0xFF28, 0xFF48), (0xFF29, 0xFF49), (0xFF2A, 0xFF4A), (0xFF2B, 0xFF4B), (0xFF2C, 0xFF4C),
     (0xFF2D, 0xFF4D), (0xFF2E, 0xFF4E), (0xFF2F, 0xFF4F), (0xFF30, 0xFF50), (0xFF31, 0xFF51), (0xFF32, 0xFF52),
     (0xFF33, 0xFF53), (0xFF34, 0xFF54), (0xFF35, 0xFF55), (0xFF36, 0xFF56), (0xFF37, 0xFF57), (0xFF38, 0xFF58),
     (0xFF39, 0xFF59), (0xFF3A, 0xFF5A), (0x10400, 0x10428), (0x10401, 0x10429), (0x10402, 0x1042A), (0x10403, 0x1042B),
     (0x10404, 0x1042C), (0x10405, 0x1042D), (0x10406, 0x1042E), (0x10407, 0x1042F), (0x10408, 0x10430), (0x10409, 0x10431),
     (0x1040A, 0x10432), (0x1040B, 0x10433), (0x1040C, 0x10434), (0x1040D, 0x10435), (0x1040E, 0x10436), (0x1040F, 0x10437),
     (0x10410, 0x10438), (0x10411, 0x10439), (0x10412, 0x1043A), (0x10413, 0x1043B), (0x10414, 0x1043C), (0x10415, 0x1043D),
     (0x10416, 0x1043E), (0x10417, 0x1043F), (0x10418, 0x10440), (0x10419, 0x10441), (0x1041A, 0x10442), (0x1041B, 0x10443),
     (0x1041C, 0x10444), (0x1041D, 0x10445), (0x1041E, 0x10446), (0x1041F, 0x10447), (0x10420, 0x10448), (0x10421, 0x10449),
     (0x10422, 0x1044A), (0x10423, 0x1044B), (0x10424, 0x1044C), (0x10425, 0x1044D), (0x10426, 0x1044E), (0x10427, 0x1044F),
     (0x104B0, 0x104D8), (0x104B1, 0x104D9), (0x104B2, 0x104DA), (0x104B3, 0x104DB), (0x104B4, 0x104DC), (0x104B5, 0x104DD),
     (0x104B6, 0x104DE), (0x104B7, 0x104DF), (0x104B8, 0x104E0), (0x104B9, 0x104E1), (0x104BA, 0x104E2), (0x104BB, 0x104E3),
     (0x104BC, 0x104E4), (0x104BD, 0x104E5), (0x104BE, 0x104E6), (0x104BF, 0x104E7), (0x104C0, 0x104E8), (0x104C1, 0x104E9),
     (0x104C2, 0x104EA), (0x104C3, 0x104EB), (0x104C4, 0x104EC), (0x104C5, 0x104ED), (0x104C6, 0x104EE), (0x104C7, 0x104EF),
     (0x104C8, 0x104F0), (0x104C9, 0x104F1), (0x104CA, 0x104F2), (0x104CB, 0x104F3), (0x104CC, 0x104F4), (0x104CD, 0x104F5),
     (0x104CE, 0x104F6), (0x104CF, 0x104F7), (0x104D0, 0x104F8), (0x104D1, 0x104F9), (0x104D2, 0x104FA), (0x104D3, 0x104FB),
     (0x10570, 0x10597), (0x10571, 0x10598), (0x10572, 0x10599), (0x10573, 0x1059A), (0x10574, 0x1059B), (0x10575, 0x1059C),
     (0x10576, 0x1059D), (0x10577, 0x1059E), (0x10578, 0x1059F), (0x10579, 0x105A0), (0x1057A, 0x105A1), (0x1057C, 0x105A3),
     (0x1057D, 0x105A4), (0x1057E, 0x105A5), (0x1057F, 0x105A6), (0x10580, 0x105A7), (0x10581, 0x105A8), (0x10582, 0x105A9),
     (0x10583, 0x105AA), (0x10584, 0x105AB), (0x10585, 0x105AC), (0x10586, 0x105AD), (0x10587, 0x105AE), (0x10588, 0x105AF),
     (0x10589, 0x105B0), (0x1058A, 0x105B1), (0x1058C, 0x105B3), (0x1058D, 0x105B4), (0x1058E, 0x105B5), (0x1058F, 0x105B6),
     (0x10590, 0x105B7), (0x10591, 0x105B8), (0x10592, 0x105B9), (0x10594, 0x105BB), (0x10595, 0x105BC), (0x10C80, 0x10CC0),
     (0x10C81, 0x10CC1), (0x10C82, 0x10CC2), (0x10C83, 0x10CC3), (0x10C84, 0x10CC4), (0x10C85, 0x10CC5), (0x10C86, 0x10CC6),
     (0x10C87, 0x10CC7), (0x10C88, 0x10CC8), (0x10C89, 0x10CC9), (0x10C8A, 0x10CCA), (0x10C8B, 0x10CCB), (0x10C8C, 0x10CCC),
     (0x10C8D, 0x10CCD), (0x10C8E, 0x10CCE), (0x10C8F, 0x10CCF), (0x10C90, 0x10CD0), (0x10C91, 0x10CD1), (0x10C92, 0x10CD2),
     (0x10C93, 0x10CD3), (0x10C94, 0x10CD4), (0x10C95, 0x10CD5), (0x10C96, 0x10CD6), (0x10C97, 0x10CD7), (0x10C98, 0x10CD8),
     (0x10C99, 0x10CD9), (0x10C9A, 0x10CDA), (0x10C9B, 0x10CDB), (0x10C9C, 0x10CDC), (0x10C9D, 0x10CDD), (0x10C9E, 0x10CDE),
     (0x10C9F, 0x10CDF), (0x10CA0, 0x10CE0), (0x10CA1, 0x10CE1), (0x10CA2, 0x10CE2), (0x10CA3, 0x10CE3), (0x10CA4, 0x10CE4),
     (0x10CA5, 0x10CE5), (0x10CA6, 0x10CE6), (0x10CA7, 0x10CE7), (0x10CA8, 0x10CE8), (0x10CA9, 0x10CE9), (0x10CAA, 0x10CEA),
     (0x10CAB, 0x10CEB), (0x10CAC, 0x10CEC), (0x10CAD, 0x10CED), (0x10CAE, 0x10CEE), (0x10CAF, 0x10CEF), (0x10CB0, 0x10CF0),
     (0x10CB1, 0x10CF1), (0x10CB2, 0x10CF2), (0x118A0, 0x118C0), (0x118A1, 0x118C1), (0x118A2, 0x118C2), (0x118A3, 0x118C3),
     (0x118A4, 0x118C4), (0x118A5, 0x118C5), (0x118A6, 0x118C6), (0x118A7, 0x118C7), (0x118A8, 0x118C8), (0x118A9, 0x118C9),
     (0x118AA, 0x118CA), (0x118AB, 0x118CB), (0x118AC, 0x118CC), (0x118AD, 0x118CD), (0x118AE, 0x118CE), (0x118AF, 0x118CF),
     (0x118B0, 0x118D0), (0x118B1, 0x118D1), (0x118B2, 0x118D2), (0x118B3, 0x118D3), (0x118B4, 0x118D4), (0x118B5, 0x118D5),
     (0x118B6, 0x118D6), (0x118B7, 0x118D7), (0x118B8, 0x118D8), (0x118B9, 0x118D9), (0x118BA, 0x118DA), (0x118BB, 0x118DB),
     (0x118BC, 0x118DC), (0x118BD, 0x118DD), (0x118BE, 0x118DE), (0x118BF, 0x118DF), (0x16E40, 0x16E60), (0x16E41, 0x16E61),
     (0x16E42, 0x16E62), (0x16E43, 0x16E63), (0x16E44, 0x16E64), (0x16E45, 0x16E65), (0x16E46, 0x16E66), (0x16E47, 0x16E67),
     (0x16E48, 0x16E68), (0x16E49, 0x16E69), (0x16E4A, 0x16E6A), (0x16E4B, 0x16E6B), (0x16E4C, 0x16E6C), (0x16E4D, 0x16E6D),
     (0x16E4E, 0x16E6E), (0x16E4F, 0x16E6F), (0x16E50, 0x16E70), (0x16E51, 0x16E71), (0x16E52, 0x16E72), (0x16E53, 0x16E73),
     (0x16E54, 0x16E74), (0x16E55, 0x16E75), (0x16E56, 0x16E76), (0x16E57, 0x16E77), (0x16E58, 0x16E78), (0x16E59, 0x16E79),
     (0x16E5A, 0x16E7A), (0x16E5B, 0x16E7B), (0x16E5C, 0x16E7C), (0x16E5D, 0x16E7D), (0x16E5E, 0x16E7E), (0x16E5F, 0x16E7F),
     (0x1E900, 0x1E922), (0x1E901, 0x1E923), (0x1E902, 0x1E924), (0x1E903, 0x1E925), (0x1E904, 0x1E926), (0x1E905, 0x1E927),
     (0x1E906, 0x1E928), (0x1E907, 0x1E929), (0x1E908, 0x1E92A), (0x1E909, 0x1E92B), (0x1E90A, 0x1E92C), (0x1E90B, 0x1E92D),
     (0x1E90C, 0x1E92E), (0x1E90D, 0x1E92F), (0x1E90E, 0x1E930), (0x1E90F, 0x1E931), (0x1E910, 0x1E932), (0x1E911, 0x1E933),
     (0x1E912, 0x1E934), (0x1E913, 0x1E935), (0x1E914, 0x1E936), (0x1E915, 0x1E937), (0x1E916, 0x1E938), (0x1E917, 0x1E939),
     (0x1E918, 0x1E93A), (0x1E919, 0x1E93B), (0x1E91A, 0x1E93C), (0x1E91B, 0x1E93D), (0x1E91C, 0x1E93E), (0x1E91D, 0x1E93F),
     (0x1E91E, 0x1E940), (0x1E91F, 0x1E941), (0x1E920, 0x1E942), (0x1E921, 0x1E943)]"

definition small_of :: "int \<Rightarrow> ustring" where
  "small_of c =
     (if c = 0x130 then [0x69, 0x307]
      else case map_of case_pairs c of Some d \<Rightarrow> [d] | None \<Rightarrow> [c])"

definition lower_at :: "ustring \<Rightarrow> nat \<Rightarrow> ustring" where
  "lower_at t i =
     (if t ! i = 0x3A3 \<and> final_sigma (take i t) (drop (Suc i) t) then [0x3C2]
      else small_of (t ! i))"

definition lower_cased :: "ustring \<Rightarrow> ustring" where
  "lower_cased t = concat (map (lower_at t) [0..<length t])"

text \<open>The pairs that a list of blocks stands for.\<close>

fun expand :: "block \<Rightarrow> (int \<times> int) list" where
  "expand (lo, hi, step, target) =
     map (\<lambda>k. (lo + k * step, target + k * step)) [0..(hi - lo) div step]"

definition pairs_of :: "block list \<Rightarrow> (int \<times> int) list" where
  "pairs_of bs = concat (map expand bs)"

fun step_of :: "block \<Rightarrow> int" where
  "step_of (lo, hi, step, target) = step"

text \<open>A code point is lowered when lower-casing leaves it as it is.\<close>

definition lowered :: "int \<Rightarrow> bool" where
  "lowered d = (to_lower_full d = [d] \<and> d \<noteq> 0x3A3)"

text \<open>
  A check of the table, run once below: the image of every block meets no block, so that
  lower-casing a code point twice is lower-casing it once, and it meets neither U+0130,
  U+03A3 nor a whitespace code point.
\<close>

fun img_disjoint :: "block \<Rightarrow> block \<Rightarrow> bool" where
  "img_disjoint (lo, hi, step, target) (lo', hi', step', target') =
     (target + (hi - lo) < lo' \<or> hi' < target
      \<or> (step = 2 \<and> step' = 2 \<and> target mod 2 \<noteq> lo' mod 2)
      \<or> (lo = hi \<and> \<not> in_block (lo', hi', step', target') target))"

fun img_avoids :: "block \<Rightarrow> int \<times> int \<Rightarrow> bool" where
  "img_avoids (lo, hi, step, target) (l, h) = (h < target \<or> target + (hi - lo) < l)"

definition block_ok :: "block list \<Rightarrow> block \<Rightarrow> bool" where
  "block_ok bs b =
     (list_all (img_disjoint b) bs
      \<and> list_all (img_avoids b) ((0x130, 0x130) # (0x3A3, 0x3A3) # space_ranges))"

definition table_ok :: "block list \<Rightarrow> bool" where
  "table_ok bs = list_all (block_ok bs) bs"

definition chunk_ok :: "nat \<Rightarrow> nat \<Rightarrow> bool" where
  "chunk_ok i n = list_all (block_ok lower_blocks) (take n (drop i lower_blocks))"

subsection \<open>Dictionaries\<close>

text \<open>
  A Python \<^verbatim>\<open>dict\<close> keeps its keys in the order of their first insertion, and
  \<^verbatim>\<open>extractOne\<close> breaks ties by that order, so a dictionary is an association list with
  distinct keys: \<open>d[k] = v\<close> overwrites the value in place or appends a new pair.
\<close>

type_synonym ('k, 'v) dict = "('k \<times> 'v) list"

fun dict_set :: "('k, 'v) dict \<Rightarrow> 'k \<Rightarrow> 'v \<Rightarrow> ('k, 'v) dict" where
  "dict_set [] k v = [(k, v)]"
| "dict_set ((k', v') # d) k v =
     (if k' = k then (k, v) # d else (k', v') # dict_set d k v)"

definition dict_get :: "('k, 'v) dict \<Rightarrow> 'k \<Rightarrow> 'v option" where
  "dict_get d k = map_of d k"

definition dict_keys :: "('k, 'v) dict \<Rightarrow> 'k list" where
  "dict_keys d = map fst d"

subsection \<open>JSON values, exceptions, what the page shows\<close>

text \<open>
  What \<^verbatim>\<open>json.loads\<close> returns. A number is kept as its literal text: Python makes it an
  \<^verbatim>\<open>int\<close> or a \<^verbatim>\<open>float\<close>, and the program computes with neither. \<open>JNull\<close> is \<^verbatim>\<open>None\<close>.
\<close>

datatype json =
    JNull
  | JBool bool
  | JNumber string
  | JString ustring
  | JArray "json list"
  | JObject "(ustring \<times> json) list"

text \<open>
  The exceptions the program can meet, all subclasses of \<^verbatim>\<open>Exception\<close>. \<open>APIError\<close> is
  whatever a call of the table's or the model's client raises, with its text.
\<close>

datatype exn =
    APIError ustring
  | JSONDecodeError ustring
  | AttributeError
  | IndexError
  | KeyError
  | TypeError
  | UnboundLocalError

text \<open>
  One constructor for each message the page can show, with the values its text is built
  from; the comment gives the line of \<^verbatim>\<open>app3.py\<close>.
\<close>

datatype ui_event =
    Err_duplicate ustring ustring     \<comment> \<open>158: Interaction with name (normalized: key) already exists\<close>
  | Err_saving exn                  \<comment> \<open>164: Error saving interaction\<close>
  | Err_empty_response              \<comment> \<open>199: Groq returned an empty response\<close>
  | Err_parsed_invalid json         \<comment> \<open>204: Parsed result invalid\<close>
  | Err_json_decode ustring exn      \<comment> \<open>209: Failed to parse Groq response as JSON\<close>
  | Err_groq_call exn               \<comment> \<open>212: Error calling Groq API\<close>
  | Err_missing_input               \<comment> \<open>231: Please provide both a name and interaction details\<close>
  | Success_saved ustring            \<comment> \<open>234: Interaction with name saved successfully\<close>
  | Err_no_query                    \<comment> \<open>245: Please enter a query\<close>
  | Show_interaction ustring ustring  \<comment> \<open>255, 256: the name and the details found\<close>
  | Err_not_found ustring            \<comment> \<open>258: No interaction found with name or a close match\<close>
  | Info json                       \<comment> \<open>260: the model's message\<close>
  | Err_unidentified                \<comment> \<open>262: Could not identify a person's name\<close>

subsection \<open>The table and the page as state\<close>

text \<open>
  \<open>rows\<close> is the content of the table \<^verbatim>\<open>interactions\<close>, in the order \<^verbatim>\<open>select\<close> lists it;
  \<open>calls\<close> is every request sent to the table so far; \<open>screen\<close> is every message shown so
  far. Both logs grow at the end.
\<close>

type_synonym row = "ustring \<times> ustring"

datatype store_call = Select | Insert ustring ustring

record world =
  rows :: "row list"
  calls :: "store_call list"
  screen :: "ui_event list"

text \<open>
  A call to the table can raise whatever the data (the network, the service). \<open>fault\<close>
  says which call of one run does, and with what text; the first raise ends the run's
  \<^verbatim>\<open>try\<close> block, so at most one call is named.
\<close>

datatype fault = NoFault | SelectFault ustring | InsertFault ustring

definition show_event :: "ui_event \<Rightarrow> world \<Rightarrow> world" where
  "show_event e w = w\<lparr>screen := screen w @ [e]\<rparr>"

text \<open>\<^verbatim>\<open>supabase.table("interactions").select(...).execute()\<close>\<close>

definition store_select :: "fault \<Rightarrow> world \<Rightarrow> (exn + row list) \<times> world" where
  "store_select fault w =
     (let w' = w\<lparr>calls := calls w @ [Select]\<rparr>
      in case fault of
           SelectFault e \<Rightarrow> (Inl (APIError e), w')
         | _ \<Rightarrow> (Inr (rows w), w'))"

text \<open>
  \<^verbatim>\<open>supabase.table("interactions").insert({...}).execute()\<close>. The table is declared with
  \<^verbatim>\<open>name TEXT PRIMARY KEY\<close> (line 134), so it refuses a row whose name, as written, is
  already there. An insert that raises has written nothing.
\<close>

definition pk_violation :: ustring where
  "pk_violation = ustr ''duplicate key value violates unique constraint''"

definition store_insert :: "fault \<Rightarrow> world \<Rightarrow> row \<Rightarrow> (exn + unit) \<times> world" where
  "store_insert fault w r =
     (let w' = w\<lparr>calls := calls w @ [Insert (fst r) (snd r)]\<rparr>
      in case fault of
           InsertFault e \<Rightarrow> (Inl (APIError e), w')
         | _ \<Rightarrow>
             if fst r \<in> set (map fst (rows w)) then (Inl (APIError pk_violation), w')
             else (Inr (), w'\<lparr>rows := rows w @ [r]\<rparr>))"

subsection \<open>Saving\<close>

text \<open>
  \<^verbatim>\<open>save_interaction(name, details)\<close>, lines 151 to 165: the whole body is one \<^verbatim>\<open>try\<close>, and
  \<^verbatim>\<open>except Exception\<close> shows the error and returns \<^verbatim>\<open>False\<close>.
\<close>

definition save_interaction :: "fault \<Rightarrow> world \<Rightarrow> ustring \<Rightarrow> ustring \<Rightarrow> bool \<times> world" where
  "save_interaction fault w name details =
     (let normalized_name = normalize_name name
      in case store_select fault w of
           (Inl e, w1) \<Rightarrow> (False, show_event (Err_saving e) w1)
         | (Inr existing, w1) \<Rightarrow>
             let existing_names = set (map (\<lambda>row. normalize_name (fst row)) existing)
             in if normalized_name \<in> existing_names
                then (False, show_event (Err_duplicate name normalized_name) w1)
                else (case store_insert fault w1 (name, details) of
                        (Inl e, w2) \<Rightarrow> (False, show_event (Err_saving e) w2)
                      | (Inr _, w2) \<Rightarrow> (True, w2)))"

text \<open>The log tab's handler, lines 229 to 234. \<^verbatim>\<open>not s\<close> holds of the empty string only.\<close>

definition log_tab :: "fault \<Rightarrow> world \<Rightarrow> ustring \<Rightarrow> ustring \<Rightarrow> world" where
  "log_tab fault w person_name interaction_details =
     (if person_name = [] \<or> interaction_details = []
      then show_event Err_missing_input w
      else (case save_interaction fault w person_name interaction_details of
              (True, w') \<Rightarrow> show_event (Success_saved person_name) w'
            | (False, w') \<Rightarrow> w'))"

text \<open>The states a run of saves can reach: one step is one call of \<open>save_interaction\<close>.\<close>

inductive reachable :: "world \<Rightarrow> world \<Rightarrow> bool" for w0 :: world where
  start: "reachable w0 w0"
| save: "reachable w0 w \<Longrightarrow> save_interaction fault w name details = (ok, w') \<Longrightarrow> reachable w0 w'"

definition names_unique :: "world \<Rightarrow> bool" where
  "names_unique w = distinct (map (\<lambda>row. normalize_name (fst row)) (rows w))"

subsection \<open>Loading\<close>

text \<open>
  \<^verbatim>\<open>load_interactions()\<close>, lines 146 to 148: the dictionary comprehension stores the rows
  in order, so of two rows with one normalised name the later one's details stay.
\<close>

definition row_dict :: "row list \<Rightarrow> (ustring, ustring) dict" where
  "row_dict data = foldl (\<lambda>d row. dict_set d (normalize_name (fst row)) (snd row)) [] data"

definition load_interactions :: "fault \<Rightarrow> world \<Rightarrow> (exn + (ustring, ustring) dict) \<times> world" where
  "load_interactions fault w =
     (case store_select fault w of
        (Inl e, w') \<Rightarrow> (Inl e, w')
      | (Inr data, w') \<Rightarrow> (Inr (row_dict data), w'))"

text \<open>
  \<^verbatim>\<open>process.extractOne(query, choices)\<close> with the defaults: every choice is scored (the
  cutoff is 0 and no score is below it), and \<^verbatim>\<open>max\<close> keeps the first pair with the highest
  score. It returns \<^verbatim>\<open>None\<close> only for no choices.
\<close>

type_synonym scorer = "ustring \<Rightarrow> ustring \<Rightarrow> nat"

fun max_first :: "ustring \<times> nat \<Rightarrow> (ustring \<times> nat) list \<Rightarrow> ustring \<times> nat" where
  "max_first best [] = best"
| "max_first best (x # xs) = max_first (if snd best < snd x then x else best) xs"

definition extractOne :: "scorer \<Rightarrow> ustring \<Rightarrow> ustring list \<Rightarrow> (ustring \<times> nat) option" where
  "extractOne scorer query choices =
     (case map (\<lambda>c. (c, scorer query c)) choices of
        [] \<Rightarrow> None
      | x # xs \<Rightarrow> Some (max_first x xs))"

text \<open>\<^verbatim>\<open>if x:\<close> on a string or \<^verbatim>\<open>None\<close>: true of a string that is not empty.\<close>

fun truthy :: "ustring option \<Rightarrow> bool" where
  "truthy None = False"
| "truthy (Some s) = (s \<noteq> [])"

text \<open>
  Lines 176 to 181, the \<^verbatim>\<open>else\<close> branch of \<open>load_interaction\<close>. Unpacking \<^verbatim>\<open>None\<close> would
  raise \<^verbatim>\<open>TypeError\<close> and a missing key \<^verbatim>\<open>KeyError\<close>.
\<close>

definition fuzzy_lookup :: "scorer \<Rightarrow> (ustring, ustring) dict \<Rightarrow> ustring \<Rightarrow> exn + ustring option" where
  "fuzzy_lookup scorer interactions normalized_name =
     (let all_names = dict_keys interactions
      in if all_names \<noteq> [] then
           (case extractOne scorer normalized_name all_names of
              None \<Rightarrow> Inl TypeError
            | Some (best_match, score) \<Rightarrow>
                if 80 \<le> score then
                  (case dict_get interactions best_match of
                     None \<Rightarrow> Inl KeyError
                   | Some v \<Rightarrow> Inr (Some v))
                else Inr None)
         else Inr None)"

text \<open>
  \<^verbatim>\<open>load_interaction(name)\<close>, lines 168 to 181. Nothing here catches an exception of the
  table: it leaves the function.
\<close>

definition load_interaction ::
  "scorer \<Rightarrow> fault \<Rightarrow> world \<Rightarrow> ustring \<Rightarrow> (exn + ustring option) \<times> world" where
  "load_interaction scorer fault w name =
     (case load_interactions fault w of
        (Inl e, w') \<Rightarrow> (Inl e, w')
      | (Inr interactions, w') \<Rightarrow>
          let normalized_name = normalize_name name;
              exact_match = dict_get interactions normalized_name
          in if truthy exact_match then (Inr exact_match, w')
             else (fuzzy_lookup scorer interactions normalized_name, w'))"

text \<open>
  The same reading of the table without the dictionary, for stating the properties: the
  details stored for a normalised name are those of the last row with that normalised
  name, and the candidates are the normalised names of the rows.
\<close>

fun stored_details :: "row list \<Rightarrow> ustring \<Rightarrow> ustring option" where
  "stored_details [] key = None"
| "stored_details (r # rs) key =
     (case stored_details rs key of
        Some d \<Rightarrow> Some d
      | None \<Rightarrow> if normalize_name (fst r) = key then Some (snd r) else None)"

definition candidates :: "world \<Rightarrow> ustring set" where
  "candidates w = set (map (\<lambda>row. normalize_name (fst row)) (rows w))"

text \<open>The read of the table succeeds unless the fault names it.\<close>

fun select_ok :: "fault \<Rightarrow> bool" where
  "select_ok (SelectFault e) = False"
| "select_ok _ = True"

definition after_select :: "world \<Rightarrow> world" where
  "after_select w = w\<lparr>calls := calls w @ [Select]\<rparr>"

subsection \<open>Asking the model\<close>

text \<open>
  The outcome of \<^verbatim>\<open>groq_client.chat.completions.create(...)\<close>: it raises an exception of
  some class, or it returns choices, each with a message content that is a string or
  \<^verbatim>\<open>None\<close>.
\<close>

datatype completion = Raises exn | Choices "ustring option list"

definition empty_result :: "(ustring, json) dict" where
  "empty_result = [(ustr ''name'', JNull), (ustr ''message'', JNull)]"

text \<open>Lines 203 to 207: the parsed value must be a \<^verbatim>\<open>dict\<close> with the key \<^verbatim>\<open>name\<close>.\<close>

fun check_parsed :: "json \<Rightarrow> world \<Rightarrow> (ustring, json) dict \<times> world" where
  "check_parsed (JObject d) w =
     (if (ustr ''name'') \<in> set (dict_keys d) then (d, w)
      else (empty_result, show_event (Err_parsed_invalid (JObject d)) w))"
| "check_parsed v w = (empty_result, show_event (Err_parsed_invalid v) w)"

text \<open>
  Lines 189 to 213, the \<^verbatim>\<open>try\<close> block and its two handlers. \<^verbatim>\<open>choices[0]\<close> of no choices
  raises \<^verbatim>\<open>IndexError\<close>, \<^verbatim>\<open>.strip()\<close> of \<^verbatim>\<open>None\<close> raises \<^verbatim>\<open>AttributeError\<close>; \<open>loads\<close> returns
  the parsed value or the exception it raises. The first handler, for
  \<^verbatim>\<open>json.JSONDecodeError\<close>, builds its message from \<^verbatim>\<open>raw_content\<close>, which line 196 assigns:
  when the call of line 190 itself raises a \<^verbatim>\<open>JSONDecodeError\<close>, the variable is not bound
  yet, building the message raises \<^verbatim>\<open>UnboundLocalError\<close> before anything is shown, and
  this exception leaves the function.
\<close>

fun parse_response ::
  "(ustring \<Rightarrow> exn + json) \<Rightarrow> completion \<Rightarrow> world
     \<Rightarrow> (exn + (ustring, json) dict) \<times> world" where
  "parse_response loads (Raises (JSONDecodeError m)) w = (Inl UnboundLocalError, w)"
| "parse_response loads (Raises e) w =
     (Inr empty_result, show_event (Err_groq_call e) w)"
| "parse_response loads (Choices []) w =
     (Inr empty_result, show_event (Err_groq_call IndexError) w)"
| "parse_response loads (Choices (None # _)) w =
     (Inr empty_result, show_event (Err_groq_call AttributeError) w)"
| "parse_response loads (Choices (Some content # _)) w =
     (let raw_content = py_strip content
      in if raw_content = [] then (Inr empty_result, show_event Err_empty_response w)
         else (case loads raw_content of
                 Inl (JSONDecodeError m) \<Rightarrow>
                   (Inr empty_result,
                    show_event (Err_json_decode raw_content (JSONDecodeError m)) w)
               | Inl e \<Rightarrow> (Inr empty_result, show_event (Err_groq_call e) w)
               | Inr parsed_result \<Rightarrow>
                   (case check_parsed parsed_result w of (result, w') \<Rightarrow> (Inr result, w'))))"

text \<open>
  \<^verbatim>\<open>parse_query_with_groq(query)\<close>, lines 184 to 213: the dictionary it returns, or the
  exception that leaves it.
\<close>

definition parse_query_with_groq ::
  "(ustring \<Rightarrow> completion) \<Rightarrow> (ustring \<Rightarrow> exn + json) \<Rightarrow> world \<Rightarrow> ustring
     \<Rightarrow> (exn + (ustring, json) dict) \<times> world" where
  "parse_query_with_groq create loads w query = parse_response loads (create query) w"

text \<open>
  The failures of the model's call as the specification lists them: the call raises (also
  by having no choice or no content to strip), the body is empty, the body does not
  parse, or the parsed value is not an object with a \<^verbatim>\<open>name\<close> field.
\<close>

fun has_name_field :: "json \<Rightarrow> bool" where
  "has_name_field (JObject d) = ((ustr ''name'') \<in> set (dict_keys d))"
| "has_name_field _ = False"

fun parsed_ok :: "exn + json \<Rightarrow> bool" where
  "parsed_ok (Inl e) = False"
| "parsed_ok (Inr v) = has_name_field v"

fun model_call_failed :: "(ustring \<Rightarrow> exn + json) \<Rightarrow> completion \<Rightarrow> bool" where
  "model_call_failed loads (Raises e) = True"
| "model_call_failed loads (Choices []) = True"
| "model_call_failed loads (Choices (None # _)) = True"
| "model_call_failed loads (Choices (Some content # _)) =
     (py_strip content = [] \<or> \<not> parsed_ok (loads (py_strip content)))"

text \<open>The call itself raises a \<^verbatim>\<open>json.JSONDecodeError\<close>.\<close>

fun raises_decode_error :: "completion \<Rightarrow> bool" where
  "raises_decode_error (Raises (JSONDecodeError m)) = True"
| "raises_decode_error _ = False"

subsection \<open>Retrieving\<close>

text \<open>\<^verbatim>\<open>result.get(key)\<close>: \<^verbatim>\<open>None\<close> for a missing key as for a JSON null.\<close>

definition get_field :: "(ustring, json) dict \<Rightarrow> ustring \<Rightarrow> json" where
  "get_field result key = (case dict_get result key of None \<Rightarrow> JNull | Some v \<Rightarrow> v)"

text \<open>
  Lines 248 to 262, what the retrieve tab does with a query that is not empty. The result
  is the exception that leaves the handler, if one does; nothing here catches one. A name that is not \<^verbatim>\<open>None\<close> goes
  to \<open>load_interaction\<close> whatever its type; when it is not a string, the table is read
  and then \<^verbatim>\<open>name.strip()\<close> raises \<^verbatim>\<open>AttributeError\<close>.
\<close>

definition retrieve ::
  "scorer \<Rightarrow> (ustring \<Rightarrow> completion) \<Rightarrow> (ustring \<Rightarrow> exn + json) \<Rightarrow> fault \<Rightarrow> world \<Rightarrow> ustring
     \<Rightarrow> exn option \<times> world" where
  "retrieve scorer create loads fault w query =
     (case parse_query_with_groq create loads w query of
        (Inl e, w1) \<Rightarrow> (Some e, w1)
      | (Inr result, w1) \<Rightarrow>
          let person_name = get_field result (ustr ''name'');
              message = get_field result (ustr ''message'')
          in if person_name \<noteq> JNull then
               (case person_name of
                  JString n \<Rightarrow>
                    (case load_interaction scorer fault w1 n of
                       (Inl e, w2) \<Rightarrow> (Some e, w2)
                     | (Inr details, w2) \<Rightarrow>
                         (case details of
                            Some d \<Rightarrow>
                              if d \<noteq> [] then (None, show_event (Show_interaction n d) w2)
                              else (None, show_event (Err_not_found n) w2)
                          | None \<Rightarrow> (None, show_event (Err_not_found n) w2)))
                | _ \<Rightarrow>
                    (case load_interactions fault w1 of
                       (Inl e, w2) \<Rightarrow> (Some e, w2)
                     | (Inr _, w2) \<Rightarrow> (Some AttributeError, w2)))
             else if message \<noteq> JNull then (None, show_event (Info message) w1)
             else (None, show_event Err_unidentified w1))"

text \<open>The retrieve tab's handler, lines 243 to 262.\<close>

definition retrieve_tab ::
  "scorer \<Rightarrow> (ustring \<Rightarrow> completion) \<Rightarrow> (ustring \<Rightarrow> exn + json) \<Rightarrow> fault \<Rightarrow> world \<Rightarrow> ustring
     \<Rightarrow> exn option \<times> world" where
  "retrieve_tab scorer create loads fault w query =
     (if query = [] then (None, show_event Err_no_query w)
      else retrieve scorer create loads fault w query)"

subsection \<open>Values for the examples\<close>

text \<open>
  A scorer for the examples. They ask it about three kinds of pairs only: a string and
  itself, 100; the query \<open>john\<close> and the choice \<open>john!\<close>, 100 (the default processor
  turns the \<open>!\<close> into a blank and strips it); the query \<open>jon\<close> and the choice \<open>john\<close>,
  86 (three of seven characters match twice over). Any other pair gets 0.
\<close>

definition sample_scorer :: scorer where
  "sample_scorer query choice =
     (if query = choice then 100
      else if query = ustr ''john'' \<and> choice = ustr ''john!'' then 100
      else if query = ustr ''jon'' \<and> choice = ustr ''john'' then 86
      else 0)"

definition empty_world :: world where
  "empty_world = \<lparr>rows = [], calls = [], screen = []\<rparr>"

definition table :: "row list \<Rightarrow> world" where
  "table rs = \<lparr>rows = rs, calls = [], screen = []\<rparr>"

text \<open>A model that answers every query with the name \<open>john\<close>, and the parser on its answer.\<close>

definition john_body :: ustring where
  \<open>john_body = (ustr ''{"name": "john", "message": null}'')\<close>

definition john_create :: "ustring \<Rightarrow> completion" where
  "john_create query = Choices [Some john_body]"

definition john_loads :: "ustring \<Rightarrow> exn + json" where
  "john_loads text =
     (if text = john_body then Inr (JObject [(ustr ''name'', JString (ustr ''john'')), (ustr ''message'', JNull)])
      else Inl (JSONDecodeError (ustr ''Expecting value'')))"

text \<open>The messages that report a failure of the model's call.\<close>

fun is_model_error :: "ui_event \<Rightarrow> bool" where
  "is_model_error (Err_groq_call e) = True"
| "is_model_error Err_empty_response = True"
| "is_model_error (Err_json_decode raw e) = True"
| "is_model_error (Err_parsed_invalid v) = True"
| "is_model_error _ = False"

text \<open>A model whose call raises a \<^verbatim>\<open>json.JSONDecodeError\<close>, and one whose call times out.\<close>

definition decode_error_create :: "ustring \<Rightarrow> completion" where
  "decode_error_create query = Raises (JSONDecodeError (ustr ''Expecting value''))"

definition failing_create :: "ustring \<Rightarrow> completion" where
  "failing_create query = Raises (APIError (ustr ''timeout''))"

section \<open>Properties\<close>

subsection \<open>Literals\<close>

lemma ustr_eq_iff [simp]: "(ustr a = ustr b) = (a = b)"
proof -
  have "inj (of_char :: char \<Rightarrow> int)" by (rule inj_of_char)
  then have "inj (map (of_char :: char \<Rightarrow> int))" by (simp only: inj_map)
  then show ?thesis unfolding ustr_def by (auto dest: injD)
qed

lemma ustr_Nil [simp]: "(ustr s = []) = (s = [])"
  by (simp add: ustr_def)


subsection \<open>Stripping\<close>

lemma all_space_iff: "all_space s = (\<forall>c \<in> set s. isspace c)"
  by (induction s) auto

lemma rstrip_Cons:
  "\<not> P x \<Longrightarrow> rev (dropWhile P (rev (x # xs))) = x # rev (dropWhile P (rev xs))"
  by (simp add: dropWhile_append)

lemma rstrip_last:
  "\<not> P x \<Longrightarrow> \<not> P (last (x # rev (dropWhile P (rev xs))))"
  by (cases "dropWhile P (rev xs) = []") (simp_all add: last_rev hd_dropWhile)

lemma bare_ends_py_strip: "bare_ends (py_strip s)"
proof (cases "dropWhile isspace s")
  case Nil
  show ?thesis unfolding py_strip_def Nil by simp
next
  case (Cons x xs)
  then have nx: "\<not> isspace x" by (metis hd_dropWhile list.sel(1) list.distinct(1))
  have "py_strip s = x # rev (dropWhile isspace (rev xs))"
    unfolding py_strip_def Cons using nx by (rule rstrip_Cons)
  then show ?thesis using nx rstrip_last [of isspace x xs] by simp
qed

lemma py_strip_decomp:
  "s = takeWhile isspace s @ py_strip s @ rev (takeWhile isspace (rev (dropWhile isspace s)))"
proof -
  let ?m = "dropWhile isspace s"
  have "py_strip s @ rev (takeWhile isspace (rev ?m))
        = rev (takeWhile isspace (rev ?m) @ dropWhile isspace (rev ?m))"
    by (simp only: py_strip_def rev_append)
  also have "\<dots> = rev (rev ?m)" by (simp only: takeWhile_dropWhile_id)
  finally have "?m = py_strip s @ rev (takeWhile isspace (rev ?m))" by simp
  moreover have "s = takeWhile isspace s @ ?m" by simp
  ultimately show ?thesis by metis
qed

lemma trimmed_of_py_strip: "trimmed_of raw (py_strip raw)"
  unfolding trimmed_of_def
proof (intro exI conjI)
  show "raw = takeWhile isspace raw @ py_strip raw
            @ rev (takeWhile isspace (rev (dropWhile isspace raw)))"
    by (rule py_strip_decomp)
  show "all_space (takeWhile isspace raw)"
    by (auto simp: all_space_iff dest: set_takeWhileD)
  show "all_space (rev (takeWhile isspace (rev (dropWhile isspace raw))))"
    by (auto simp: all_space_iff dest: set_takeWhileD)
  show "bare_ends (py_strip raw)" by (rule bare_ends_py_strip)
qed

lemma strip_of_parts:
  assumes "all_space pre" "all_space suf" "bare_ends t"
  shows "py_strip (pre @ t @ suf) = t"
proof (cases t)
  case Nil
  from assms have "\<forall>c \<in> set (pre @ suf). isspace c"
    by (auto simp: all_space_iff)
  then have "dropWhile isspace (pre @ suf) = []"
    by (simp only: dropWhile_eq_Nil_conv)
  then show ?thesis
    by (simp only: py_strip_def Nil append_Nil rev.simps dropWhile.simps)
next
  case (Cons x xs)
  with assms have nx: "\<not> isspace x" and nl: "\<not> isspace (last t)" by auto
  have 1: "dropWhile isspace (pre @ t @ suf) = t @ suf"
    using assms(1) nx Cons by (simp add: all_space_iff dropWhile_append)
  have "dropWhile isspace (rev suf @ rev t) = dropWhile isspace (rev t)"
    using assms(2) by (intro dropWhile_append2) (simp add: all_space_iff)
  also have "\<dots> = rev t"
    using nl Cons by (simp only: dropWhile_eq_self_iff hd_rev) simp
  finally have 2: "dropWhile isspace (rev suf @ rev t) = rev t" .
  show ?thesis by (simp add: py_strip_def 1 2)
qed

lemma trimmed_of_unique: "trimmed_of raw t \<Longrightarrow> t = py_strip raw"
  unfolding trimmed_of_def by (auto simp: strip_of_parts)

lemma py_strip_bare: "bare_ends t \<Longrightarrow> py_strip t = t"
  using strip_of_parts [of "[]" "[]" t] by simp

subsection \<open>The lower-case table\<close>

lemma lookup_lower_Some:
  "lookup_lower bs c = Some d \<Longrightarrow> \<exists>b \<in> set bs. in_block b c \<and> d = image_of b c"
  by (induction bs) (auto split: if_splits)

lemma lookup_lower_None: "(lookup_lower bs c = None) = (\<forall>b \<in> set bs. \<not> in_block b c)"
  by (induction bs) auto

lemma img_disjoint_sound:
  assumes "img_disjoint b b'" and "in_block b c"
  shows "\<not> in_block b' (image_of b c)"
proof -
  obtain lo hi step target where b: "b = (lo, hi, step, target)" by (cases b)
  obtain lo' hi' step' target' where b': "b' = (lo', hi', step', target')" by (cases b')
  from assms(2) have c: "lo \<le> c" "c \<le> hi" "(c - lo) mod step = 0" by (simp_all add: b)
  from assms(1) consider
      "target + (hi - lo) < lo'" | "hi' < target"
    | "step = 2" "step' = 2" "target mod 2 \<noteq> lo' mod 2"
    | "lo = hi" "\<not> in_block (lo', hi', step', target') target"
    by (auto simp: b b')
  then show ?thesis
  proof cases
    case 1
    with c show ?thesis by (simp add: b b')
  next
    case 2
    with c show ?thesis by (simp add: b b')
  next
    case 3
    from c(3) 3(1) have "(c - lo) mod 2 = 0" by simp
    with 3(3) have "(target + (c - lo) - lo') mod 2 \<noteq> 0" by presburger
    with 3(2) show ?thesis by (simp add: b b')
  next
    case 4
    with c have "c = lo" by simp
    with 4(2) show ?thesis by (simp add: b b')
  qed
qed

lemma img_avoids_sound:
  assumes "img_avoids b r" and "in_block b c"
  shows "\<not> (fst r \<le> image_of b c \<and> image_of b c \<le> snd r)"
proof -
  obtain lo hi step target where b: "b = (lo, hi, step, target)" by (cases b)
  obtain l h where r: "r = (l, h)" by (cases r)
  from assms show ?thesis by (auto simp: b r)
qed

lemma in_ranges_iff: "in_ranges rs c = (\<exists>r \<in> set rs. fst r \<le> c \<and> c \<le> snd r)"
  by (induction rs) auto

lemma table_ok_image:
  assumes "table_ok bs" and "lookup_lower bs c = Some d"
  shows "lookup_lower bs d = None \<and> d \<noteq> 0x130 \<and> d \<noteq> 0x3A3 \<and> \<not> isspace d"
proof -
  from lookup_lower_Some [OF assms(2)] obtain b where
    b: "b \<in> set bs" "in_block b c" "d = image_of b c" by blast
  from assms(1) b(1) have ok: "block_ok bs b" by (simp add: table_ok_def list_all_iff)
  then have dis: "\<forall>b' \<in> set bs. img_disjoint b b'"
    and av: "\<forall>r \<in> set ((0x130, 0x130) # (0x3A3, 0x3A3) # space_ranges). img_avoids b r"
    by (simp_all add: block_ok_def list_all_iff)
  have "\<forall>b' \<in> set bs. \<not> in_block b' d"
    using dis b(2,3) img_disjoint_sound by blast
  then have 1: "lookup_lower bs d = None" by (simp only: lookup_lower_None)
  have r: "\<not> (fst r \<le> d \<and> d \<le> snd r)"
    if "r \<in> set ((0x130, 0x130) # (0x3A3, 0x3A3) # space_ranges)" for r
    using av that b(2,3) img_avoids_sound by blast
  from r [of "(0x130, 0x130)"] have 2: "d \<noteq> 0x130" by auto
  from r [of "(0x3A3, 0x3A3)"] have 3: "d \<noteq> 0x3A3" by auto
  have 4: "\<not> isspace d"
    unfolding isspace_def in_ranges_iff using r by auto
  from 1 2 3 4 show ?thesis by blast
qed


lemma chunk_0: "chunk_ok 0 30" by code_simp
lemma chunk_1: "chunk_ok 30 30" by code_simp
lemma chunk_2: "chunk_ok 60 30" by code_simp
lemma chunk_3: "chunk_ok 90 30" by code_simp
lemma chunk_4: "chunk_ok 120 30" by code_simp
lemma chunk_5: "chunk_ok 150 31" by code_simp
lemma length_lower_blocks: "length lower_blocks = 181" by code_simp

lemma list_all_chunks:
  assumes "list_all P (take n (drop i xs))" and "list_all P (drop (n + i) xs)"
  shows "list_all P (drop i xs)"
proof -
  have "take n (drop i xs) @ drop (n + i) xs = drop i xs"
    by (simp only: drop_drop [symmetric] append_take_drop_id)
  with assms show ?thesis by (metis list_all_append)
qed

lemma table_ok_lower_blocks: "table_ok lower_blocks"
proof -
  have "list_all (block_ok lower_blocks) (drop 181 lower_blocks)" using length_lower_blocks by simp
  with chunk_5 have "list_all (block_ok lower_blocks) (drop 150 lower_blocks)"
    unfolding chunk_ok_def using list_all_chunks [of _ 31 150] by simp
  with chunk_4 have "list_all (block_ok lower_blocks) (drop 120 lower_blocks)"
    unfolding chunk_ok_def using list_all_chunks [of _ 30 120] by simp
  with chunk_3 have "list_all (block_ok lower_blocks) (drop 90 lower_blocks)"
    unfolding chunk_ok_def using list_all_chunks [of _ 30 90] by simp
  with chunk_2 have "list_all (block_ok lower_blocks) (drop 60 lower_blocks)"
    unfolding chunk_ok_def using list_all_chunks [of _ 30 60] by simp
  with chunk_1 have "list_all (block_ok lower_blocks) (drop 30 lower_blocks)"
    unfolding chunk_ok_def using list_all_chunks [of _ 30 30] by simp
  with chunk_0 have "list_all (block_ok lower_blocks) (drop 0 lower_blocks)"
    unfolding chunk_ok_def using list_all_chunks [of _ 30 0] by simp
  then show ?thesis by (simp add: table_ok_def)
qed

subsection \<open>Lower-casing\<close>

lemma lowered_consts: "lowered 0x69" "lowered 0x307" "lowered 0x3C2" "lowered 0x3C3"
  by code_simp+

lemma nonspace_consts:
  "\<not> isspace 0x69" "\<not> isspace 0x307" "\<not> isspace 0x3C2" "\<not> isspace 0x3C3"
  "\<not> isspace 0x3A3" "\<not> isspace 0x130"
  by code_simp+

lemma lookup_sigma: "lookup_lower lower_blocks 0x3A3 = Some 0x3C3"
  by code_simp

lemma to_lower_full_lowered:
  assumes "d \<in> set (to_lower_full c)"
  shows "lowered d"
proof (cases "c = 0x130")
  case True
  with assms have "d = 0x69 \<or> d = 0x307" by (simp add: to_lower_full_def)
  then show ?thesis using lowered_consts by auto
next
  case False
  show ?thesis
  proof (cases "lookup_lower lower_blocks c")
    case None
    with False assms have d: "d = c" by (simp add: to_lower_full_def)
    from None lookup_sigma have "c \<noteq> 0x3A3" by auto
    with None False d show ?thesis by (simp add: lowered_def to_lower_full_def)
  next
    case (Some e)
    with False assms have d: "d = e" by (simp add: to_lower_full_def)
    from table_ok_image [OF table_ok_lower_blocks Some] d
    show ?thesis by (simp add: lowered_def to_lower_full_def)
  qed
qed

lemma to_lower_full_nonspace:
  assumes "\<not> isspace c" and "d \<in> set (to_lower_full c)"
  shows "\<not> isspace d"
proof (cases "c = 0x130")
  case True
  with assms have "d = 0x69 \<or> d = 0x307" by (simp add: to_lower_full_def)
  then show ?thesis using nonspace_consts by auto
next
  case False
  show ?thesis
  proof (cases "lookup_lower lower_blocks c")
    case None
    with False assms show ?thesis by (simp add: to_lower_full_def)
  next
    case (Some e)
    with False assms have d: "d = e" by (simp add: to_lower_full_def)
    from table_ok_image [OF table_ok_lower_blocks Some] d show ?thesis by simp
  qed
qed

lemma to_lower_full_nonempty: "to_lower_full c \<noteq> []"
  by (simp add: to_lower_full_def split: option.splits)

lemma lower_ucs4_lowered: "d \<in> set (lower_ucs4 before c after) \<Longrightarrow> lowered d"
  using lowered_consts to_lower_full_lowered
  by (auto simp: lower_ucs4_def split: if_splits)

lemma lower_ucs4_nonspace:
  "\<not> isspace c \<Longrightarrow> d \<in> set (lower_ucs4 before c after) \<Longrightarrow> \<not> isspace d"
  using nonspace_consts to_lower_full_nonspace
  by (auto simp: lower_ucs4_def split: if_splits)

lemma lower_ucs4_nonempty: "lower_ucs4 before c after \<noteq> []"
  by (simp add: lower_ucs4_def to_lower_full_nonempty)

lemma do_lower_lowered: "d \<in> set (do_lower before s) \<Longrightarrow> lowered d"
  by (induction s arbitrary: before) (auto dest: lower_ucs4_lowered)

lemma lower_ucs4_fixed: "lowered c \<Longrightarrow> lower_ucs4 before c after = [c]"
  by (simp add: lowered_def lower_ucs4_def)

lemma do_lower_fixed: "\<forall>d \<in> set s. lowered d \<Longrightarrow> do_lower before s = s"
  by (induction s arbitrary: before) (simp_all add: lower_ucs4_fixed)

text \<open>ASCII: the only block below U+00C0 is that of the capital letters.\<close>

lemma lower_blocks_first: "lower_blocks = (0x41, 0x5A, 1, 0x61) # tl lower_blocks"
  by code_simp

lemma lower_blocks_rest: "list_all (\<lambda>b. 0xC0 \<le> fst b) (tl lower_blocks)"
  by code_simp

lemma lookup_lower_below:
  "list_all (\<lambda>b. k \<le> fst b) bs \<Longrightarrow> c < k \<Longrightarrow> lookup_lower bs c = None"
  by (induction bs) auto

lemma lookup_lower_ascii:
  assumes "c < 128"
  shows "lookup_lower lower_blocks c = (if 0x41 \<le> c \<and> c \<le> 0x5A then Some (c + 0x20) else None)"
proof -
  from assms have "c < 0xC0" by simp
  with lower_blocks_rest have "lookup_lower (tl lower_blocks) c = None"
    by (rule lookup_lower_below)
  then show ?thesis by (subst lower_blocks_first) simp
qed

lemma lower_ucs4_ascii:
  assumes "0 \<le> c" and "c < 128"
  shows "lower_ucs4 before c after = [ascii_tolower c]"
  using assms
  by (simp add: lower_ucs4_def to_lower_full_def lookup_lower_ascii ascii_tolower_def)

lemma do_lower_ascii: "is_ascii t \<Longrightarrow> do_lower before t = map ascii_tolower t"
  by (induction t arbitrary: before) (simp_all add: lower_ucs4_ascii)

lemma py_lower_do_lower: "py_lower s = do_lower [] s"
  by (simp add: py_lower_def do_lower_ascii)

text \<open>The table against the alphabet, and the loop against the positions.\<close>

lemma pairs_of_lower_blocks: "pairs_of lower_blocks = case_pairs"
  by code_simp

lemma steps_positive: "list_all (\<lambda>b. 0 < step_of b) lower_blocks"
  by code_simp

lemma map_of_steps:
  "map_of (map (\<lambda>k. (lo + k * step, target + k * step)) ks) (c :: int)
     = (if \<exists>k \<in> set ks. c = lo + k * step then Some (target + (c - lo) :: int) else None)"
  by (induction ks) (auto simp: algebra_simps)

lemma in_block_steps:
  assumes "0 < step"
  shows "in_block (lo, hi, step, target) c
           = (\<exists>k \<in> set [0..(hi - lo) div step]. c = lo + k * step)"
proof
  assume "in_block (lo, hi, step, target) c"
  then have c: "lo \<le> c" "c \<le> hi" "(c - lo) mod step = 0" by simp_all
  let ?k = "(c - lo) div step"
  from c(1) assms have "0 \<le> ?k" by (simp add: pos_imp_zdiv_nonneg_iff)
  moreover from c(2) assms have "?k \<le> (hi - lo) div step" by (intro zdiv_mono1) simp_all
  moreover have "c = lo + ?k * step"
  proof -
    from c(3) have "?k * step = c - lo" by (intro dvd_div_mult_self mod_0_imp_dvd)
    then show ?thesis by simp
  qed
  ultimately show "\<exists>k \<in> set [0..(hi - lo) div step]. c = lo + k * step" by auto
next
  assume "\<exists>k \<in> set [0..(hi - lo) div step]. c = lo + k * step"
  then obtain k where k: "0 \<le> k" "k \<le> (hi - lo) div step" "c = lo + k * step" by auto
  from k(1) assms have "0 \<le> k * step" by simp
  moreover from k(2) assms have "k * step \<le> ((hi - lo) div step) * step"
    by (intro mult_right_mono) simp_all
  moreover have "((hi - lo) div step) * step \<le> hi - lo"
  proof -
    have "(hi - lo) div step * step + (hi - lo) mod step = hi - lo" by (rule div_mult_mod_eq)
    moreover from assms have "0 \<le> (hi - lo) mod step" by simp
    ultimately show ?thesis by linarith
  qed
  ultimately show "in_block (lo, hi, step, target) c" using k(3) by simp
qed

lemma map_of_expand:
  assumes "0 < step_of b"
  shows "map_of (expand b) c = (if in_block b c then Some (image_of b c) else None)"
proof -
  obtain lo hi step target where b: "b = (lo, hi, step, target)" by (cases b)
  with assms have "0 < step" by simp
  from in_block_steps [OF this, of lo hi target c] show ?thesis
    by (simp add: b map_of_steps del: in_block.simps)
qed

lemma lookup_lower_pairs:
  "list_all (\<lambda>b. 0 < step_of b) bs \<Longrightarrow> lookup_lower bs c = map_of (pairs_of bs) c"
proof (induction bs)
  case Nil
  show ?case by (simp add: pairs_of_def)
next
  case (Cons b bs)
  then have s: "0 < step_of b" and r: "lookup_lower bs c = map_of (pairs_of bs) c"
    by simp_all
  have "pairs_of (b # bs) = expand b @ pairs_of bs" by (simp add: pairs_of_def)
  then have "map_of (pairs_of (b # bs)) c = (map_of (pairs_of bs) ++ map_of (expand b)) c"
    by (simp only: map_of_append)
  with r show ?case by (simp add: map_add_def map_of_expand [OF s])
qed

lemma to_lower_full_small_of: "to_lower_full c = small_of c"
  using lookup_lower_pairs [OF steps_positive, of c]
  by (simp add: to_lower_full_def small_of_def pairs_of_lower_blocks)

lemma small_of_sigma: "small_of 0x3A3 = [0x3C3]"
  by (simp add: to_lower_full_small_of [symmetric] to_lower_full_def lookup_sigma)

lemma lower_ucs4_lower_at:
  "lower_ucs4 before c after = lower_at (before @ c # after) (length before)"
  by (simp add: lower_ucs4_def lower_at_def to_lower_full_small_of small_of_sigma)

lemma do_lower_lower_at:
  "do_lower before s
     = concat (map (lower_at (before @ s)) [length before..<length before + length s])"
proof (induction s arbitrary: before)
  case Nil
  show ?case by simp
next
  case (Cons c after)
  have "[length before..<length before + length (c # after)]
          = length before # [length (before @ [c])..<length (before @ [c]) + length after]"
    by (subst upt_rec) simp
  then show ?case
    by (simp only: do_lower.simps Cons.IH [of "before @ [c]"] lower_ucs4_lower_at
          list.map concat.simps append_assoc append_Cons append_Nil)
qed

lemma py_lower_lower_cased: "py_lower t = lower_cased t"
  using do_lower_lower_at [of "[]" t] by (simp add: py_lower_do_lower lower_cased_def)

lemma py_lower_idem: "py_lower (py_lower s) = py_lower s"
  unfolding py_lower_do_lower by (rule do_lower_fixed) (auto dest: do_lower_lowered)

lemma do_lower_hd:
  "\<not> isspace c \<Longrightarrow> \<not> isspace (hd (do_lower before (c # cs)))"
  using lower_ucs4_nonempty [of before c cs] lower_ucs4_nonspace [of c _ before cs]
  by (simp add: hd_append)

lemma do_lower_last:
  "s \<noteq> [] \<Longrightarrow> \<not> isspace (last s)
   \<Longrightarrow> do_lower before s \<noteq> [] \<and> \<not> isspace (last (do_lower before s))"
proof (induction s arbitrary: before)
  case Nil
  then show ?case by simp
next
  case (Cons c cs)
  show ?case
  proof (cases "cs = []")
    case True
    with Cons.prems have "\<not> isspace c" by simp
    then have "\<not> isspace (last (lower_ucs4 before c []))"
      using lower_ucs4_nonempty [of before c "[]"] lower_ucs4_nonspace [of c _ before "[]"]
      by (metis last_in_set)
    with True show ?thesis by (simp add: lower_ucs4_nonempty)
  next
    case False
    with Cons.prems have "\<not> isspace (last cs)" by simp
    from Cons.IH [OF False this, of "before @ [c]"] show ?thesis by simp
  qed
qed

lemma bare_ends_lower:
  assumes "bare_ends t"
  shows "bare_ends (py_lower t)"
proof (cases t)
  case Nil
  then show ?thesis by (simp add: py_lower_do_lower)
next
  case (Cons c cs)
  with assms have c: "\<not> isspace c" and l: "\<not> isspace (last t)" by simp_all
  from c have h: "\<not> isspace (hd (do_lower [] (c # cs)))" by (rule do_lower_hd)
  from Cons l have "do_lower [] t \<noteq> [] \<and> \<not> isspace (last (do_lower [] t))"
    by (intro do_lower_last) simp_all
  with h Cons show ?thesis
    by (cases "do_lower [] t") (simp_all add: py_lower_do_lower)
qed

lemma normalize_name_lowered: "d \<in> set (normalize_name raw) \<Longrightarrow> lowered d"
  unfolding normalize_name_def py_lower_do_lower by (rule do_lower_lowered)

text \<open>
  Strings outside ASCII: one that starts with U+0130, which becomes two code points, and
  Greek words with a capital sigma at the end and at the start.
\<close>

lemma py_lower_dotted_capital_i:
  "py_lower (0x130 # ustr ''stanbul'') = 0x69 # 0x307 # ustr ''stanbul''"
  by code_simp

lemma py_lower_final_sigma:
  "py_lower [0x39F, 0x394, 0x39F, 0x3A3] = [0x3BF, 0x3B4, 0x3BF, 0x3C2]
   \<and> py_lower [0x3A3, 0x39F, 0x3A3] = [0x3C3, 0x3BF, 0x3C2]"
  by code_simp

lemma normalize_name_small: "d \<in> set (normalize_name raw) \<Longrightarrow> small_of d = [d]"
  using normalize_name_lowered [of d raw]
  by (simp add: lowered_def to_lower_full_small_of)

text \<open>
  C5. For every string \<open>raw\<close>, \<open>normalize_name raw\<close> is \<open>raw\<close> with its leading and
  trailing whitespace removed and every character lower-cased: \<open>raw\<close> has a trimmed
  form; whatever string \<open>t\<close> is \<open>raw\<close> trimmed, the result is \<open>t\<close> lower-cased position by
  position from the alphabet; and every code point of the result is its own lower case.
  In particular both \<open>"  John  "\<close> and \<open>"john"\<close> normalise to \<open>"john"\<close>.
\<close>

theorem normalize_name_trims_and_lowers:
  "(\<exists>t. trimmed_of raw t)
   \<and> (\<forall>t. trimmed_of raw t \<longrightarrow> normalize_name raw = lower_cased t)
   \<and> (\<forall>d \<in> set (normalize_name raw). small_of d = [d])
   \<and> normalize_name (ustr ''  John  '') = ustr ''john''
   \<and> normalize_name (ustr ''john'') = ustr ''john''"
proof (intro conjI allI impI ballI)
  show "\<exists>t. trimmed_of raw t"
    using trimmed_of_py_strip by blast
  show "normalize_name raw = lower_cased t" if "trimmed_of raw t" for t
    using trimmed_of_unique [OF that]
    by (simp add: normalize_name_def py_lower_lower_cased)
  show "small_of d = [d]" if "d \<in> set (normalize_name raw)" for d
    using that by (rule normalize_name_small)
  show "normalize_name (ustr ''  John  '') = ustr ''john''" by code_simp
  show "normalize_name (ustr ''john'') = ustr ''john''" by code_simp
qed

theorem normalize_name_trims_and_lowers_witness:
  "trimmed_of (ustr ''  John  '') (ustr ''John'')
   \<and> normalize_name (ustr ''  John  '') = lower_cased (ustr ''John'')
   \<and> lower_cased (ustr ''John'') = ustr ''john''"
proof -
  have "ustr ''  John  '' = ustr ''  '' @ ustr ''John'' @ ustr ''  ''"
    by (simp add: ustr_def)
  moreover have "all_space (ustr ''  '')" by code_simp
  moreover have "bare_ends (ustr ''John'')" by code_simp
  ultimately have t: "trimmed_of (ustr ''  John  '') (ustr ''John'')"
    unfolding trimmed_of_def by blast
  have "py_lower (ustr ''John'') = ustr ''john''" by code_simp
  then have l: "lower_cased (ustr ''John'') = ustr ''john''"
    by (simp only: py_lower_lower_cased)
  from normalize_name_trims_and_lowers [of "ustr ''  John  ''"] t l show ?thesis by blast
qed

text \<open>
  C6. \<open>normalize_name\<close> is idempotent on every string of code points: normalising a
  normalised name changes nothing.
\<close>

theorem normalize_name_idempotent: "normalize_name (normalize_name s) = normalize_name s"
proof -
  have "bare_ends (py_lower (py_strip s))" by (intro bare_ends_lower bare_ends_py_strip)
  then have "py_strip (py_lower (py_strip s)) = py_lower (py_strip s)" by (rule py_strip_bare)
  then show ?thesis by (simp add: normalize_name_def py_lower_idem)
qed

subsection \<open>Dictionaries and the best match\<close>

lemma dict_get_set:
  "dict_get (dict_set d k v) k' = (if k' = k then Some v else dict_get d k')"
  by (induction d) (auto simp: dict_get_def)

lemma dict_keys_set: "set (dict_keys (dict_set d k v)) = insert k (set (dict_keys d))"
  by (induction d) (force simp: dict_keys_def)+

lemma dict_get_foldl:
  "dict_get (foldl (\<lambda>d row. dict_set d (normalize_name (fst row)) (snd row)) d0 data) key
     = (case stored_details data key of Some x \<Rightarrow> Some x | None \<Rightarrow> dict_get d0 key)"
  by (induction data arbitrary: d0) (auto simp: dict_get_set split: option.splits)

lemma dict_keys_foldl:
  "set (dict_keys (foldl (\<lambda>d row. dict_set d (normalize_name (fst row)) (snd row)) d0 data))
     = set (dict_keys d0) \<union> set (map (\<lambda>row. normalize_name (fst row)) data)"
  by (induction data arbitrary: d0) (auto simp: dict_keys_set)

lemma dict_get_row_dict: "dict_get (row_dict data) key = stored_details data key"
  unfolding row_dict_def dict_get_foldl by (simp add: dict_get_def split: option.splits)

lemma dict_keys_row_dict:
  "set (dict_keys (row_dict data)) = set (map (\<lambda>row. normalize_name (fst row)) data)"
  unfolding row_dict_def dict_keys_foldl by (simp add: dict_keys_def)

lemma stored_details_None:
  "(stored_details data key = None) = (key \<notin> set (map (\<lambda>row. normalize_name (fst row)) data))"
  by (induction data) (auto split: option.splits)

lemma stored_details_last:
  assumes "normalize_name n \<notin> set (map (\<lambda>row. normalize_name (fst row)) after)"
  shows "stored_details (before @ (n, d) # after) (normalize_name n) = Some d"
proof -
  from assms have "stored_details after (normalize_name n) = None"
    by (simp add: stored_details_None)
  then show ?thesis by (induction before) simp_all
qed

lemma max_first_mem: "max_first b xs \<in> set (b # xs)"
proof (induction xs arbitrary: b)
  case Nil
  show ?case by simp
next
  case (Cons x xs)
  let ?b = "if snd b < snd x then x else b"
  have "max_first ?b xs \<in> set (?b # xs)" by (rule Cons.IH)
  moreover have "set (?b # xs) \<subseteq> set (b # x # xs)" by auto
  ultimately show ?case by (simp only: max_first.simps) blast
qed

lemma max_first_ge_start: "snd b \<le> snd (max_first b xs)"
proof (induction xs arbitrary: b)
  case Nil
  show ?case by simp
next
  case (Cons x xs)
  have "snd b \<le> snd (if snd b < snd x then x else b)" by simp
  also have "\<dots> \<le> snd (max_first (if snd b < snd x then x else b) xs)" by (rule Cons.IH)
  finally show ?case by simp
qed

lemma max_first_ge: "x \<in> set (b # xs) \<Longrightarrow> snd x \<le> snd (max_first b xs)"
proof (induction xs arbitrary: b)
  case Nil
  then show ?case by simp
next
  case (Cons y ys)
  let ?b = "if snd b < snd y then y else b"
  from Cons.prems consider "x = b" | "x = y" | "x \<in> set ys" by auto
  then show ?case
  proof cases
    case 1
    have "snd b \<le> snd ?b" by simp
    also have "\<dots> \<le> snd (max_first ?b ys)" by (rule max_first_ge_start)
    finally show ?thesis using 1 by simp
  next
    case 2
    have "snd y \<le> snd ?b" by simp
    also have "\<dots> \<le> snd (max_first ?b ys)" by (rule max_first_ge_start)
    finally show ?thesis using 2 by simp
  next
    case 3
    then have "x \<in> set (?b # ys)" by simp
    then have "snd x \<le> snd (max_first ?b ys)" by (rule Cons.IH)
    then show ?thesis by simp
  qed
qed

lemma extractOne_best:
  assumes "choices \<noteq> []"
  shows "\<exists>best. best \<in> set choices \<and> (\<forall>c \<in> set choices. scorer query c \<le> scorer query best)
           \<and> extractOne scorer query choices = Some (best, scorer query best)"
proof -
  from assms obtain c cs where choices: "choices = c # cs" by (cases choices) auto
  define ps where "ps = map (\<lambda>c. (c, scorer query c)) cs"
  obtain best sc where m: "max_first (c, scorer query c) ps = (best, sc)"
    by (cases "max_first (c, scorer query c) ps")
  have e: "extractOne scorer query choices = Some (best, sc)"
    by (simp add: extractOne_def choices ps_def [symmetric] m)
  have "(best, sc) \<in> set ((c, scorer query c) # ps)"
    using max_first_mem [of "(c, scorer query c)" ps] by (simp only: m)
  then have b: "best \<in> set choices" and sc: "sc = scorer query best"
    by (auto simp: choices ps_def)
  have "scorer query x \<le> scorer query best" if "x \<in> set choices" for x
  proof -
    from that have "(x, scorer query x) \<in> set ((c, scorer query c) # ps)"
      by (auto simp: choices ps_def)
    then have "snd (x, scorer query x) \<le> snd (max_first (c, scorer query c) ps)"
      by (rule max_first_ge)
    then show ?thesis by (simp add: m sc)
  qed
  with b e sc show ?thesis by blast
qed

lemma fuzzy_lookup_empty: "fuzzy_lookup scorer (row_dict []) key = Inr None"
  by (simp add: fuzzy_lookup_def row_dict_def dict_keys_def)

lemma fuzzy_lookup_best:
  assumes "data \<noteq> []"
  shows "\<exists>best d. best \<in> set (map (\<lambda>row. normalize_name (fst row)) data)
           \<and> (\<forall>c \<in> set (map (\<lambda>row. normalize_name (fst row)) data). scorer key c \<le> scorer key best)
           \<and> stored_details data best = Some d
           \<and> fuzzy_lookup scorer (row_dict data) key
               = Inr (if 80 \<le> scorer key best then Some d else None)"
proof -
  let ?ks = "dict_keys (row_dict data)"
  have ks: "set ?ks = set (map (\<lambda>row. normalize_name (fst row)) data)"
    by (rule dict_keys_row_dict)
  with assms have ne: "?ks \<noteq> []" by (cases data) auto
  from extractOne_best [OF ne, of scorer key] obtain best where
    b: "best \<in> set ?ks" "\<forall>c \<in> set ?ks. scorer key c \<le> scorer key best"
       "extractOne scorer key ?ks = Some (best, scorer key best)" by blast
  from b(1) ks have "stored_details data best \<noteq> None"
    by (simp only: stored_details_None) simp
  then obtain d where d: "stored_details data best = Some d" by blast
  then have g: "dict_get (row_dict data) best = Some d" by (simp add: dict_get_row_dict)
  have "fuzzy_lookup scorer (row_dict data) key
          = Inr (if 80 \<le> scorer key best then Some d else None)"
    using ne b(3) g by (simp add: fuzzy_lookup_def)
  moreover have "best \<in> set (map (\<lambda>row. normalize_name (fst row)) data)"
    using b(1) ks by simp
  moreover have "\<forall>c \<in> set (map (\<lambda>row. normalize_name (fst row)) data).
                   scorer key c \<le> scorer key best"
    using b(2) ks by simp
  ultimately show ?thesis using d by blast
qed

lemma load_interactions_ok:
  "select_ok fault \<Longrightarrow> load_interactions fault w = (Inr (row_dict (rows w)), after_select w)"
  by (cases fault) (simp_all add: load_interactions_def store_select_def after_select_def)

lemma load_interaction_ok:
  "select_ok fault \<Longrightarrow>
   load_interaction scorer fault w name =
     (if truthy (stored_details (rows w) (normalize_name name))
      then Inr (stored_details (rows w) (normalize_name name))
      else fuzzy_lookup scorer (row_dict (rows w)) (normalize_name name),
      after_select w)"
  by (simp add: load_interaction_def load_interactions_ok dict_get_row_dict)

subsection \<open>Saving\<close>

lemma raw_name_fresh:
  "normalize_name name \<notin> set (map (\<lambda>row. normalize_name (fst row)) rs)
   \<Longrightarrow> name \<notin> set (map fst rs)"
  by auto

lemma save_interaction_select_fault:
  "save_interaction (SelectFault e) w name details
     = (False, show_event (Err_saving (APIError e)) (after_select w))"
  by (simp add: save_interaction_def store_select_def after_select_def)

lemma save_interaction_duplicate_case:
  assumes "select_ok fault" and "normalize_name name \<in> candidates w"
  shows "save_interaction fault w name details
           = (False, show_event (Err_duplicate name (normalize_name name)) (after_select w))"
  using assms
  by (cases fault) (simp_all add: save_interaction_def store_select_def after_select_def candidates_def)

lemma save_interaction_insert_fault:
  assumes "normalize_name name \<notin> candidates w"
  shows "save_interaction (InsertFault e) w name details
           = (False, show_event (Err_saving (APIError e))
                (w\<lparr>calls := calls w @ [Select, Insert name details]\<rparr>))"
  using assms
  by (simp add: save_interaction_def store_select_def store_insert_def candidates_def)

lemma save_interaction_fresh:
  assumes "normalize_name name \<notin> candidates w"
  shows "save_interaction NoFault w name details
           = (True, w\<lparr>rows := rows w @ [(name, details)],
                       calls := calls w @ [Select, Insert name details]\<rparr>)"
proof -
  from assms have "name \<notin> set (map fst (rows w))"
    unfolding candidates_def by (rule raw_name_fresh)
  with assms show ?thesis
    by (simp add: save_interaction_def store_select_def store_insert_def candidates_def)
qed

lemma save_interaction_rows:
  "rows (snd (save_interaction fault w name details)) = rows w
   \<or> (normalize_name name \<notin> candidates w
       \<and> rows (snd (save_interaction fault w name details)) = rows w @ [(name, details)])"
proof (cases "normalize_name name \<in> candidates w")
  case True
  then show ?thesis
    by (cases fault)
       (simp_all add: save_interaction_select_fault save_interaction_duplicate_case
          show_event_def after_select_def)
next
  case False
  then show ?thesis
    by (cases fault)
       (simp_all add: save_interaction_select_fault save_interaction_insert_fault
          save_interaction_fresh show_event_def after_select_def)
qed

lemma save_interaction_keeps_unique:
  assumes "names_unique w"
  shows "names_unique (snd (save_interaction fault w name details))"
  using save_interaction_rows [of fault w name details] assms
  by (auto simp: names_unique_def candidates_def)

text \<open>
  C1. When the normalised name is that of a row already in the table, \<open>save_interaction\<close>
  returns \<open>False\<close>, leaves the rows as they were and sends the table one read and no
  insert, whatever fault the run meets; when the read succeeds, what it shows is the
  duplicate message. In particular, after a save of \<open>John\<close> into any table, a save of
  \<open>john\<close> is refused as a duplicate (both runs without a fault).
\<close>

theorem save_interaction_rejects_duplicate:
  assumes "normalize_name name \<in> candidates w"
  shows "fst (save_interaction fault w name details) = False
     \<and> rows (snd (save_interaction fault w name details)) = rows w
     \<and> calls (snd (save_interaction fault w name details)) = calls w @ [Select]
     \<and> (select_ok fault \<longrightarrow>
          save_interaction fault w name details
            = (False, show_event (Err_duplicate name (normalize_name name)) (after_select w)))
     \<and> (\<forall>w0 d1 d2.
          save_interaction NoFault (snd (save_interaction NoFault w0 (ustr ''John'') d1)) (ustr ''john'') d2
            = (False, show_event (Err_duplicate (ustr ''john'') (ustr ''john''))
                 (after_select (snd (save_interaction NoFault w0 (ustr ''John'') d1)))))"
proof (intro conjI allI impI)
  show "fst (save_interaction fault w name details) = False"
    using assms
    by (cases fault) (simp_all add: save_interaction_select_fault save_interaction_duplicate_case)
  show "rows (snd (save_interaction fault w name details)) = rows w"
    using assms
    by (cases fault)
       (simp_all add: save_interaction_select_fault save_interaction_duplicate_case
          show_event_def after_select_def)
  show "calls (snd (save_interaction fault w name details)) = calls w @ [Select]"
    using assms
    by (cases fault)
       (simp_all add: save_interaction_select_fault save_interaction_duplicate_case
          show_event_def after_select_def)
  show "save_interaction fault w name details
          = (False, show_event (Err_duplicate name (normalize_name name)) (after_select w))"
    if "select_ok fault"
    using that assms by (rule save_interaction_duplicate_case)
next
  fix w0 d1 d2
  let ?w1 = "snd (save_interaction NoFault w0 (ustr ''John'') d1)"
  have j: "normalize_name (ustr ''John'') = ustr ''john''" "normalize_name (ustr ''john'') = ustr ''john''"
    by code_simp+
  have "(ustr ''john'') \<in> candidates ?w1"
  proof (cases "(ustr ''john'') \<in> candidates w0")
    case True
    then have "rows ?w1 = rows w0"
      by (simp add: save_interaction_duplicate_case j show_event_def after_select_def)
    with True show ?thesis by (simp add: candidates_def)
  next
    case False
    then have "rows ?w1 = rows w0 @ [(ustr ''John'', d1)]"
      by (simp add: save_interaction_fresh j)
    then show ?thesis by (simp add: candidates_def j)
  qed
  then have "normalize_name (ustr ''john'') \<in> candidates ?w1" by (simp only: j)
  then have "save_interaction NoFault ?w1 (ustr ''john'') d2
      = (False, show_event (Err_duplicate (ustr ''john'') (normalize_name (ustr ''john''))) (after_select ?w1))"
    by (intro save_interaction_duplicate_case) simp
  then show "save_interaction NoFault ?w1 (ustr ''john'') d2
      = (False, show_event (Err_duplicate (ustr ''john'') (ustr ''john'')) (after_select ?w1))"
    by (simp only: j)
qed

theorem save_interaction_rejects_duplicate_witness:
  "normalize_name (ustr ''john'') \<in> candidates (table [(ustr ''John'', ustr ''met for coffee'')])
   \<and> save_interaction NoFault (table [(ustr ''John'', ustr ''met for coffee'')]) (ustr ''john'') (ustr ''anything'')
       = (False, show_event (Err_duplicate (ustr ''john'') (ustr ''john''))
            (after_select (table [(ustr ''John'', ustr ''met for coffee'')])))"
proof -
  have h: "normalize_name (ustr ''john'') \<in> candidates (table [(ustr ''John'', ustr ''met for coffee'')])"
    by code_simp
  have n: "normalize_name (ustr ''john'') = ustr ''john''" by code_simp
  from save_interaction_rejects_duplicate [OF h, of NoFault "(ustr ''anything'')"] h show ?thesis by (simp add: n)
qed

text \<open>
  C2. From a table where no two rows have the same normalised name, every run of calls
  of \<open>save_interaction\<close>, with any arguments and any faults, reaches only tables with that
  property.
\<close>

theorem names_unique_preserved:
  assumes "names_unique w0" and "reachable w0 w"
  shows "names_unique w"
  using assms(2,1)
proof (induction rule: reachable.induct)
  case start
  then show ?case .
next
  case (save w fault name details ok w')
  then have "names_unique w" by simp
  then have "names_unique (snd (save_interaction fault w name details))"
    by (rule save_interaction_keeps_unique)
  with save.hyps(2) show ?case by simp
qed

theorem names_unique_preserved_witness:
  "names_unique empty_world
   \<and> reachable empty_world
        \<lparr>rows = [(ustr ''John'', ustr ''met for coffee'')],
         calls = [Select, Insert (ustr ''John'') (ustr ''met for coffee''), Select],
         screen = [Err_duplicate (ustr ''john'') (ustr ''john'')]\<rparr>
   \<and> names_unique
        \<lparr>rows = [(ustr ''John'', ustr ''met for coffee'')],
         calls = [Select, Insert (ustr ''John'') (ustr ''met for coffee''), Select],
         screen = [Err_duplicate (ustr ''john'') (ustr ''john'')]\<rparr>"
proof -
  let ?w1 = "\<lparr>rows = [(ustr ''John'', ustr ''met for coffee'')],
         calls = [Select, Insert (ustr ''John'') (ustr ''met for coffee'')], screen = []\<rparr>"
  let ?w2 = "\<lparr>rows = [(ustr ''John'', ustr ''met for coffee'')],
         calls = [Select, Insert (ustr ''John'') (ustr ''met for coffee''), Select],
         screen = [Err_duplicate (ustr ''john'') (ustr ''john'')]\<rparr>"
  have u: "names_unique empty_world" by code_simp
  have s1: "save_interaction NoFault empty_world (ustr ''John'') (ustr ''met for coffee'') = (True, ?w1)"
    by code_simp
  have s2: "save_interaction NoFault ?w1 (ustr ''john'') (ustr ''anything'') = (False, ?w2)"
    by code_simp
  have r: "reachable empty_world ?w2"
    by (rule reachable.save [OF reachable.save [OF reachable.start s1] s2])
  from names_unique_preserved [OF u r] u r show ?thesis by blast
qed

text \<open>
  C9, as amended. When the name or the details is the empty string, the log tab shows
  the validation error and nothing else happens: no request goes to the table and its
  rows stay. The claim as written also covers a name or details of whitespace only, which
  the handler accepts: see the counterexample below.
\<close>

theorem log_tab_rejects_empty:
  assumes "person_name = [] \<or> interaction_details = []"
  shows "log_tab fault w person_name interaction_details = show_event Err_missing_input w
     \<and> rows (log_tab fault w person_name interaction_details) = rows w
     \<and> calls (log_tab fault w person_name interaction_details) = calls w"
  using assms by (auto simp: log_tab_def show_event_def)

theorem log_tab_rejects_empty_witness:
  "log_tab NoFault (table [(ustr ''John'', ustr ''met for coffee'')]) [] (ustr ''hello'')
     = show_event Err_missing_input (table [(ustr ''John'', ustr ''met for coffee'')])
   \<and> calls (log_tab NoFault (table [(ustr ''John'', ustr ''met for coffee'')]) [] (ustr ''hello'')) = []"
proof -
  have h: "([] :: ustring) = [] \<or> (ustr ''hello'') = []" by simp
  have "calls (table [(ustr ''John'', ustr ''met for coffee'')]) = []" by (simp add: table_def)
  with log_tab_rejects_empty [OF h, of NoFault "table [(ustr ''John'', ustr ''met for coffee'')]"] show ?thesis
    by (simp add: show_event_def)
qed

text \<open>
  C9 as written fails: a name of two spaces passes the check, the table is read and the
  row is inserted.
\<close>

theorem log_tab_blank_name_counterexample:
  "all_space (ustr ''  '')
   \<and> log_tab NoFault empty_world (ustr ''  '') (ustr ''hello'')
     = \<lparr>rows = [(ustr ''  '', ustr ''hello'')], calls = [Select, Insert (ustr ''  '') (ustr ''hello'')],
        screen = [Success_saved (ustr ''  '')]\<rparr>"
proof (intro conjI)
  show "all_space (ustr ''  '')" by code_simp
  show "log_tab NoFault empty_world (ustr ''  '') (ustr ''hello'')
     = \<lparr>rows = [(ustr ''  '', ustr ''hello'')], calls = [Select, Insert (ustr ''  '') (ustr ''hello'')],
        screen = [Success_saved (ustr ''  '')]\<rparr>" by code_simp
qed

subsection \<open>Loading\<close>

lemma stored_details_row:
  "stored_details data key = Some d \<Longrightarrow> \<exists>n. (n, d) \<in> set data \<and> normalize_name n = key"
proof (induction data)
  case Nil
  then show ?case by simp
next
  case (Cons r rs)
  show ?case
  proof (cases "stored_details rs key")
    case None
    with Cons.prems have "normalize_name (fst r) = key" "snd r = d"
      by (auto split: if_splits)
    then have "(fst r, d) \<in> set (r # rs)" by (cases r) simp
    with \<open>normalize_name (fst r) = key\<close> show ?thesis by blast
  next
    case (Some x)
    with Cons.prems have "stored_details rs key = Some d" by simp
    from Cons.IH [OF this] show ?thesis by auto
  qed
qed

text \<open>
  C3, as amended. When the table can be read and the details stored for the normalised
  query (those of the last row with that normalised name) are not empty,
  \<open>load_interaction\<close> returns exactly these details, whatever the scorer: the exact match
  comes first. The claim as written also covers stored details that are empty, where the
  lookup goes on to the fuzzy match: see the counterexample below.
\<close>

theorem load_interaction_exact_match:
  assumes "select_ok fault"
    and "stored_details (rows w) (normalize_name query) = Some d"
    and "d \<noteq> []"
  shows "load_interaction scorer fault w query = (Inr (Some d), after_select w)
     \<and> (\<exists>n. (n, d) \<in> set (rows w) \<and> normalize_name n = normalize_name query)"
  using assms stored_details_row [OF assms(2)]
  by (simp add: load_interaction_ok)

theorem load_interaction_exact_match_witness:
  "select_ok NoFault
   \<and> stored_details (rows (table [(ustr ''John'', ustr ''met for coffee''), (ustr ''Johnny'', ustr ''lunch'')]))
        (normalize_name (ustr ''  JOHN '')) = Some (ustr ''met for coffee'')
   \<and> load_interaction sample_scorer NoFault
        (table [(ustr ''John'', ustr ''met for coffee''), (ustr ''Johnny'', ustr ''lunch'')]) (ustr ''  JOHN '')
       = (Inr (Some (ustr ''met for coffee'')),
          after_select (table [(ustr ''John'', ustr ''met for coffee''), (ustr ''Johnny'', ustr ''lunch'')]))"
proof -
  have 1: "select_ok NoFault" by simp
  have 2: "stored_details (rows (table [(ustr ''John'', ustr ''met for coffee''), (ustr ''Johnny'', ustr ''lunch'')]))
        (normalize_name (ustr ''  JOHN '')) = Some (ustr ''met for coffee'')" by code_simp
  have 3: "(ustr ''met for coffee'') \<noteq> []" by simp
  from load_interaction_exact_match [OF 1 2 3, of sample_scorer] 1 2 show ?thesis by blast
qed

text \<open>
  C3 as written fails: \<open>john\<close> is a stored normalised name with empty details, and the
  lookup of \<open>John\<close> returns the details of the row \<open>john!\<close>, the first of the two
  candidates that score 100.
\<close>

theorem load_interaction_exact_empty_counterexample:
  "normalize_name (ustr ''John'') \<in> candidates (table [(ustr ''john!'', ustr ''met at the gym''), (ustr ''john'', [])])
   \<and> stored_details [(ustr ''john!'', ustr ''met at the gym''), (ustr ''john'', [])] (normalize_name (ustr ''John''))
       = Some []
   \<and> load_interaction sample_scorer NoFault
        (table [(ustr ''john!'', ustr ''met at the gym''), (ustr ''john'', [])]) (ustr ''John'')
       = (Inr (Some (ustr ''met at the gym'')),
          after_select (table [(ustr ''john!'', ustr ''met at the gym''), (ustr ''john'', [])]))"
proof (intro conjI)
  show "normalize_name (ustr ''John'') \<in> candidates (table [(ustr ''john!'', ustr ''met at the gym''), (ustr ''john'', [])])"
    by code_simp
  show "stored_details [(ustr ''john!'', ustr ''met at the gym''), (ustr ''john'', [])] (normalize_name (ustr ''John''))
       = Some []"
    by code_simp
  show "load_interaction sample_scorer NoFault
        (table [(ustr ''john!'', ustr ''met at the gym''), (ustr ''john'', [])]) (ustr ''John'')
       = (Inr (Some (ustr ''met at the gym'')),
          after_select (table [(ustr ''john!'', ustr ''met at the gym''), (ustr ''john'', [])]))"
    by code_simp
qed

text \<open>
  C4. When the table can be read and the normalised query is not among the normalised
  stored names: with no rows the lookup returns \<open>None\<close>; otherwise there is a candidate
  whose score is the highest of all candidates, and the lookup returns the details
  stored for it when that score is at least 80 and \<open>None\<close> when it is below 80.
\<close>

theorem load_interaction_fuzzy_threshold:
  assumes "select_ok fault" and "normalize_name query \<notin> candidates w"
  shows "(rows w = [] \<longrightarrow> load_interaction scorer fault w query = (Inr None, after_select w))
     \<and> (rows w \<noteq> [] \<longrightarrow>
          (\<exists>best d. best \<in> candidates w
             \<and> (\<forall>c \<in> candidates w.
                   scorer (normalize_name query) c \<le> scorer (normalize_name query) best)
             \<and> stored_details (rows w) best = Some d
             \<and> load_interaction scorer fault w query
                 = (Inr (if 80 \<le> scorer (normalize_name query) best then Some d else None),
                    after_select w)))"
proof -
  from assms(2) have none: "stored_details (rows w) (normalize_name query) = None"
    by (simp add: stored_details_None candidates_def)
  then have l: "load_interaction scorer fault w query
      = (fuzzy_lookup scorer (row_dict (rows w)) (normalize_name query), after_select w)"
    using assms(1) by (simp add: load_interaction_ok)
  show ?thesis
  proof (intro conjI impI)
    assume "rows w = []"
    then show "load_interaction scorer fault w query = (Inr None, after_select w)"
      using l by (simp add: fuzzy_lookup_empty)
  next
    assume "rows w \<noteq> []"
    from fuzzy_lookup_best [OF this, of scorer "normalize_name query"] l
    show "\<exists>best d. best \<in> candidates w
             \<and> (\<forall>c \<in> candidates w.
                   scorer (normalize_name query) c \<le> scorer (normalize_name query) best)
             \<and> stored_details (rows w) best = Some d
             \<and> load_interaction scorer fault w query
                 = (Inr (if 80 \<le> scorer (normalize_name query) best then Some d else None),
                    after_select w)"
      unfolding candidates_def by simp
  qed
qed

theorem load_interaction_fuzzy_threshold_witness:
  "select_ok NoFault
   \<and> normalize_name (ustr ''jon'') \<notin> candidates (table [(ustr ''John'', ustr ''met for coffee'')])
   \<and> sample_scorer (normalize_name (ustr ''jon'')) (ustr ''john'') = 86
   \<and> load_interaction sample_scorer NoFault (table [(ustr ''John'', ustr ''met for coffee'')]) (ustr ''jon'')
       = (Inr (Some (ustr ''met for coffee'')), after_select (table [(ustr ''John'', ustr ''met for coffee'')]))"
proof -
  let ?w = "table [(ustr ''John'', ustr ''met for coffee'')]"
  have 1: "select_ok NoFault" by simp
  have 2: "normalize_name (ustr ''jon'') \<notin> candidates ?w" by code_simp
  have c: "candidates ?w = {(ustr ''john'')}" by code_simp
  have r: "rows ?w \<noteq> []" by code_simp
  have s: "sample_scorer (normalize_name (ustr ''jon'')) (ustr ''john'') = 86" by code_simp
  have d: "stored_details (rows ?w) (ustr ''john'') = Some (ustr ''met for coffee'')" by code_simp
  from load_interaction_fuzzy_threshold [OF 1 2, of sample_scorer] r obtain best d where
    b: "best \<in> candidates ?w" "stored_details (rows ?w) best = Some d"
       "load_interaction sample_scorer NoFault ?w (ustr ''jon'')
          = (Inr (if 80 \<le> sample_scorer (normalize_name (ustr ''jon'')) best then Some d else None),
             after_select ?w)"
    by blast
  from b(1) c have "best = ustr ''john''" by simp
  with b(2,3) d s have "load_interaction sample_scorer NoFault ?w (ustr ''jon'')
       = (Inr (Some (ustr ''met for coffee'')), after_select ?w)" by simp
  with 1 2 s show ?thesis by blast
qed

text \<open>
  C10, as amended. When the table can be read and holds a row with empty details that is
  the last row with its normalised name, the lookup of a name with that normalised name
  does not return at the exact-match step: its result is that of the fuzzy match over
  all candidates, the details stored for a best-scoring candidate when its score is at
  least 80 and \<open>None\<close> otherwise. The claim as written covers every row with empty
  details, also one followed by a row with the same normalised name: see the
  counterexample below.
\<close>

theorem load_interaction_empty_details_falls_through:
  assumes "select_ok fault"
    and "rows w = before @ (n, []) # after"
    and "normalize_name n \<notin> set (map (\<lambda>row. normalize_name (fst row)) after)"
    and "normalize_name name = normalize_name n"
  shows "load_interaction scorer fault w name
           = (fuzzy_lookup scorer (row_dict (rows w)) (normalize_name name), after_select w)
     \<and> (\<exists>best d. best \<in> candidates w
             \<and> (\<forall>c \<in> candidates w.
                   scorer (normalize_name name) c \<le> scorer (normalize_name name) best)
             \<and> stored_details (rows w) best = Some d
             \<and> load_interaction scorer fault w name
                 = (Inr (if 80 \<le> scorer (normalize_name name) best then Some d else None),
                    after_select w))"
proof -
  have "stored_details (rows w) (normalize_name name) = Some []"
    unfolding assms(2,4) using assms(3) by (rule stored_details_last)
  then have l: "load_interaction scorer fault w name
      = (fuzzy_lookup scorer (row_dict (rows w)) (normalize_name name), after_select w)"
    using assms(1) by (simp add: load_interaction_ok)
  from assms(2) have "rows w \<noteq> []" by simp
  from fuzzy_lookup_best [OF this, of scorer "normalize_name name"] l
  show ?thesis unfolding candidates_def by simp
qed

theorem load_interaction_empty_details_falls_through_witness:
  "rows (table [(ustr ''john!'', ustr ''lunch''), (ustr ''John'', [])]) = [(ustr ''john!'', ustr ''lunch'')] @ (ustr ''John'', []) # []
   \<and> normalize_name (ustr ''john'') = normalize_name (ustr ''John'')
   \<and> load_interaction sample_scorer NoFault (table [(ustr ''john!'', ustr ''lunch''), (ustr ''John'', [])]) (ustr ''john'')
       = (Inr (Some (ustr ''lunch'')), after_select (table [(ustr ''john!'', ustr ''lunch''), (ustr ''John'', [])]))"
proof -
  let ?w = "table [(ustr ''john!'', ustr ''lunch''), (ustr ''John'', [])]"
  have 1: "select_ok NoFault" by simp
  have 2: "rows ?w = [(ustr ''john!'', ustr ''lunch'')] @ (ustr ''John'', []) # []" by (simp add: table_def)
  have 3: "normalize_name (ustr ''John'') \<notin> set (map (\<lambda>row. normalize_name (fst row)) [])" by simp
  have 4: "normalize_name (ustr ''john'') = normalize_name (ustr ''John'')" by code_simp
  have f: "fuzzy_lookup sample_scorer (row_dict (rows ?w)) (normalize_name (ustr ''john''))
             = Inr (Some (ustr ''lunch''))" by code_simp
  from load_interaction_empty_details_falls_through [OF 1 2 3 4, of sample_scorer] f 2 4 show ?thesis by simp
qed

text \<open>
  C10 as written fails: the row \<open>John\<close> has empty details, but the later row \<open>john\<close>
  has the same normalised name, and the lookup returns its details at the exact-match
  step, where the fuzzy match would have returned those of \<open>john!\<close>.
\<close>

theorem load_interaction_later_row_counterexample:
  "(ustr ''John'', []) \<in> set (rows (table [(ustr ''john!'', ustr ''lunch''), (ustr ''John'', []), (ustr ''john'', ustr ''coffee'')]))
   \<and> normalize_name (ustr ''john'') = normalize_name (ustr ''John'')
   \<and> load_interaction sample_scorer NoFault
        (table [(ustr ''john!'', ustr ''lunch''), (ustr ''John'', []), (ustr ''john'', ustr ''coffee'')]) (ustr ''john'')
       = (Inr (Some (ustr ''coffee'')),
          after_select (table [(ustr ''john!'', ustr ''lunch''), (ustr ''John'', []), (ustr ''john'', ustr ''coffee'')]))
   \<and> fuzzy_lookup sample_scorer
        (row_dict (rows (table [(ustr ''john!'', ustr ''lunch''), (ustr ''John'', []), (ustr ''john'', ustr ''coffee'')])))
        (normalize_name (ustr ''john''))
       = Inr (Some (ustr ''lunch''))"
proof (intro conjI)
  show "(ustr ''John'', []) \<in> set (rows (table [(ustr ''john!'', ustr ''lunch''), (ustr ''John'', []), (ustr ''john'', ustr ''coffee'')]))"
    by code_simp
  show "normalize_name (ustr ''john'') = normalize_name (ustr ''John'')" by code_simp
  show "load_interaction sample_scorer NoFault
        (table [(ustr ''john!'', ustr ''lunch''), (ustr ''John'', []), (ustr ''john'', ustr ''coffee'')]) (ustr ''john'')
       = (Inr (Some (ustr ''coffee'')),
          after_select (table [(ustr ''john!'', ustr ''lunch''), (ustr ''John'', []), (ustr ''john'', ustr ''coffee'')]))"
    by code_simp
  show "fuzzy_lookup sample_scorer
        (row_dict (rows (table [(ustr ''john!'', ustr ''lunch''), (ustr ''John'', []), (ustr ''john'', ustr ''coffee'')])))
        (normalize_name (ustr ''john''))
       = Inr (Some (ustr ''lunch''))"
    by code_simp
qed

subsection \<open>Asking the model and retrieving\<close>

lemma retrieve_tab_query:
  "query \<noteq> [] \<Longrightarrow>
   retrieve_tab scorer create loads fault w query = retrieve scorer create loads fault w query"
  by (simp add: retrieve_tab_def)

lemma retrieve_tab_no_query:
  "retrieve_tab scorer create loads fault w [] = (None, show_event Err_no_query w)"
  by (simp add: retrieve_tab_def)

lemma check_parsed_failed:
  "\<not> has_name_field v \<Longrightarrow> check_parsed v w = (empty_result, show_event (Err_parsed_invalid v) w)"
  by (cases v) simp_all

lemma parse_response_failed:
  assumes "model_call_failed loads c" and "\<not> raises_decode_error c"
  shows "\<exists>err. is_model_error err
           \<and> parse_response loads c w = (Inr empty_result, show_event err w)"
proof (cases c)
  case (Raises e)
  with assms(2) show ?thesis
    by (cases e) (simp_all, (intro exI [of _ "Err_groq_call e"], simp)+)
next
  case (Choices cs)
  show ?thesis
  proof (cases cs)
    case Nil
    with Choices show ?thesis by (intro exI [of _ "Err_groq_call IndexError"]) simp
  next
    case (Cons x xs)
    show ?thesis
    proof (cases x)
      case None
      with Choices Cons show ?thesis by (intro exI [of _ "Err_groq_call AttributeError"]) simp
    next
      case (Some content)
      show ?thesis
      proof (cases "py_strip content = []")
        case True
        with Choices Cons Some show ?thesis by (intro exI [of _ "Err_empty_response"]) simp
      next
        case False
        with assms(1) Choices Cons Some have bad: "\<not> parsed_ok (loads (py_strip content))"
          by simp
        show ?thesis
        proof (cases "loads (py_strip content)")
          case (Inl e)
          show ?thesis
          proof (cases e)
            case (JSONDecodeError m)
            with Choices Cons Some False Inl show ?thesis
              by (intro exI [of _ "Err_json_decode (py_strip content) (JSONDecodeError m)"]) simp
          qed (use Choices Cons Some False Inl in \<open>(intro exI [of _ "Err_groq_call e"], simp)+\<close>)
        next
          case (Inr v)
          with bad have "\<not> has_name_field v" by simp
          then have "check_parsed v w = (empty_result, show_event (Err_parsed_invalid v) w)"
            by (rule check_parsed_failed)
          with Choices Cons Some False Inr show ?thesis
            by (intro exI [of _ "Err_parsed_invalid v"]) simp
        qed
      qed
    qed
  qed
qed

lemma retrieve_empty_result:
  "parse_query_with_groq create loads w query = (Inr empty_result, w1)
   \<Longrightarrow> retrieve scorer create loads fault w query = (None, show_event Err_unidentified w1)"
  by (simp add: retrieve_def empty_result_def get_field_def dict_get_def)

text \<open>
  Every failure of the model's call but one degrades as the specification says: one
  error message, the empty result, and \<open>retrieve\<close> ends normally with the message that
  no name was identified. The one left out is the call raising a \<^verbatim>\<open>JSONDecodeError\<close>.
\<close>

lemma parse_query_with_groq_other_failures:
  assumes "model_call_failed loads (create query)"
    and "\<not> raises_decode_error (create query)"
  shows "\<exists>err. is_model_error err
           \<and> parse_query_with_groq create loads w query = (Inr empty_result, show_event err w)
           \<and> retrieve scorer create loads fault w query
               = (None, show_event Err_unidentified (show_event err w))"
proof -
  from parse_response_failed [OF assms, of w] obtain err where
    e: "is_model_error err"
       "parse_response loads (create query) w = (Inr empty_result, show_event err w)"
    by blast
  then have p: "parse_query_with_groq create loads w query = (Inr empty_result, show_event err w)"
    by (simp add: parse_query_with_groq_def)
  from retrieve_empty_result [OF p] e(1) p show ?thesis by blast
qed

lemma parse_query_with_groq_timeout:
  "parse_query_with_groq failing_create john_loads empty_world (ustr ''hello'')
     = (Inr empty_result, show_event (Err_groq_call (APIError (ustr ''timeout''))) empty_world)
   \<and> retrieve sample_scorer failing_create john_loads NoFault empty_world (ustr ''hello'')
     = (None, show_event Err_unidentified
          (show_event (Err_groq_call (APIError (ustr ''timeout''))) empty_world))"
proof -
  have p: "parse_query_with_groq failing_create john_loads empty_world (ustr ''hello'')
     = (Inr empty_result, show_event (Err_groq_call (APIError (ustr ''timeout''))) empty_world)"
    by (simp add: parse_query_with_groq_def failing_create_def)
  from retrieve_empty_result [OF p] p show ?thesis by blast
qed

text \<open>
  C8 fails on the code. The claim counts a call that raises among the failures that
  degrade to the empty result, whatever the exception. When the call raises a
  \<^verbatim>\<open>json.JSONDecodeError\<close>, the handler of line 208 is the one that catches it, and it
  reads \<^verbatim>\<open>raw_content\<close> before line 196 has bound it: nothing is shown, and
  \<^verbatim>\<open>UnboundLocalError\<close> leaves \<open>parse_query_with_groq\<close> and then \<open>retrieve\<close>.
\<close>

theorem parse_query_with_groq_unbound_local:
  assumes "create query = Raises (JSONDecodeError m)"
  shows "model_call_failed loads (create query)
     \<and> parse_query_with_groq create loads w query = (Inl UnboundLocalError, w)
     \<and> retrieve scorer create loads fault w query = (Some UnboundLocalError, w)"
  using assms by (simp add: parse_query_with_groq_def retrieve_def)

theorem parse_query_with_groq_unbound_local_witness:
  "decode_error_create (ustr ''hello'') = Raises (JSONDecodeError (ustr ''Expecting value''))
   \<and> model_call_failed john_loads (decode_error_create (ustr ''hello''))
   \<and> parse_query_with_groq decode_error_create john_loads empty_world (ustr ''hello'')
       = (Inl UnboundLocalError, empty_world)
   \<and> retrieve sample_scorer decode_error_create john_loads NoFault empty_world (ustr ''hello'')
       = (Some UnboundLocalError, empty_world)"
proof -
  have c: "decode_error_create (ustr ''hello'') = Raises (JSONDecodeError (ustr ''Expecting value''))"
    by (simp add: decode_error_create_def)
  from parse_query_with_groq_unbound_local
         [where create = decode_error_create and query = "ustr ''hello''"
            and m = "ustr ''Expecting value''" and loads = john_loads and w = empty_world
            and scorer = sample_scorer and fault = NoFault] c
  show ?thesis by simp
qed

text \<open>
  C7, as amended. \<open>retrieve\<close> dispatches on the result that \<open>parse_query_with_groq\<close>
  returns. A
  name that is a string goes to \<open>load_interaction\<close>, whatever the message is: details
  that are not empty are shown, and no match or empty details give the not-found
  message. With no name, a message is shown as information; with neither, the page says
  that no name was identified. The claim as written has the details shown whenever a
  match exists, also when they are empty: see the counterexample below.
\<close>

theorem retrieve_dispatch:
  assumes "parse_query_with_groq create loads w query = (Inr result, w1)"
  shows "(\<forall>n. get_field result (ustr ''name'') = JString n \<longrightarrow>
            (\<forall>d w2. load_interaction scorer fault w1 n = (Inr (Some d), w2) \<and> d \<noteq> [] \<longrightarrow>
               retrieve scorer create loads fault w query
                 = (None, show_event (Show_interaction n d) w2))
          \<and> (\<forall>w2. load_interaction scorer fault w1 n = (Inr None, w2)
                    \<or> load_interaction scorer fault w1 n = (Inr (Some []), w2) \<longrightarrow>
               retrieve scorer create loads fault w query
                 = (None, show_event (Err_not_found n) w2)))
     \<and> (get_field result (ustr ''name'') = JNull \<and> get_field result (ustr ''message'') \<noteq> JNull \<longrightarrow>
          retrieve scorer create loads fault w query
            = (None, show_event (Info (get_field result (ustr ''message''))) w1))
     \<and> (get_field result (ustr ''name'') = JNull \<and> get_field result (ustr ''message'') = JNull \<longrightarrow>
          retrieve scorer create loads fault w query = (None, show_event Err_unidentified w1))"
  using assms by (auto simp: retrieve_def)

theorem retrieve_dispatch_witness:
  "parse_query_with_groq john_create john_loads (table [(ustr ''John'', ustr ''met for coffee'')])
       (ustr ''what did I discuss with John'')
     = (Inr [(ustr ''name'', JString (ustr ''john'')), (ustr ''message'', JNull)],
        table [(ustr ''John'', ustr ''met for coffee'')])
   \<and> load_interaction sample_scorer NoFault (table [(ustr ''John'', ustr ''met for coffee'')]) (ustr ''john'')
     = (Inr (Some (ustr ''met for coffee'')), after_select (table [(ustr ''John'', ustr ''met for coffee'')]))
   \<and> retrieve sample_scorer john_create john_loads NoFault (table [(ustr ''John'', ustr ''met for coffee'')])
       (ustr ''what did I discuss with John'')
     = (None, show_event (Show_interaction (ustr ''john'') (ustr ''met for coffee''))
          (after_select (table [(ustr ''John'', ustr ''met for coffee'')])))"
proof -
  let ?w = "table [(ustr ''John'', ustr ''met for coffee'')]"
  let ?r = "[(ustr ''name'', JString (ustr ''john'')), (ustr ''message'', JNull)]"
  have p: "parse_query_with_groq john_create john_loads ?w (ustr ''what did I discuss with John'')
     = (Inr ?r, ?w)" by code_simp
  have g: "get_field ?r (ustr ''name'') = JString (ustr ''john'')" by code_simp
  have l: "load_interaction sample_scorer NoFault ?w (ustr ''john'')
     = (Inr (Some (ustr ''met for coffee'')), after_select ?w)" by code_simp
  have n: "(ustr ''met for coffee'') \<noteq> []" by simp
  from retrieve_dispatch [OF p, of sample_scorer NoFault] g l n
  have "retrieve sample_scorer john_create john_loads NoFault ?w (ustr ''what did I discuss with John'')
     = (None, show_event (Show_interaction (ustr ''john'') (ustr ''met for coffee'')) (after_select ?w))"
    by blast
  with p l show ?thesis by blast
qed

text \<open>
  C7 as written fails: the model names \<open>john\<close>, the table has the row \<open>john\<close> with empty
  details, and the page says that nothing was found.
\<close>

theorem retrieve_empty_details_counterexample:
  "parse_query_with_groq john_create john_loads (table [(ustr ''john'', [])])
       (ustr ''what did I discuss with john'')
     = (Inr [(ustr ''name'', JString (ustr ''john'')), (ustr ''message'', JNull)],
        table [(ustr ''john'', [])])
   \<and> normalize_name (ustr ''john'') \<in> candidates (table [(ustr ''john'', [])])
   \<and> retrieve sample_scorer john_create john_loads NoFault (table [(ustr ''john'', [])])
       (ustr ''what did I discuss with john'')
     = (None, show_event (Err_not_found (ustr ''john'')) (after_select (table [(ustr ''john'', [])])))"
proof (intro conjI)
  show "parse_query_with_groq john_create john_loads (table [(ustr ''john'', [])])
       (ustr ''what did I discuss with john'')
     = (Inr [(ustr ''name'', JString (ustr ''john'')), (ustr ''message'', JNull)],
        table [(ustr ''john'', [])])"
    by code_simp
  show "normalize_name (ustr ''john'') \<in> candidates (table [(ustr ''john'', [])])" by code_simp
  show "retrieve sample_scorer john_create john_loads NoFault (table [(ustr ''john'', [])])
       (ustr ''what did I discuss with john'')
     = (None, show_event (Err_not_found (ustr ''john'')) (after_select (table [(ustr ''john'', [])])))"
    by code_simp
qed

end
